theory Spec2Isabelle
  imports Main
begin

section \<open>Python values, exceptions and dictionaries\<close>

text \<open>
  The module under study is \<^verbatim>\<open>rest_rpc/training/core/server.py\<close>: the connection
  manager (\<^verbatim>\<open>connect_to_ttp\<close>, \<^verbatim>\<open>connect_to_workers\<close>, \<^verbatim>\<open>terminate_connections\<close>),
  the session bracket (\<^verbatim>\<open>train_combination\<close> inside \<^verbatim>\<open>start_expt_run_training\<close>) and
  the scheduler (\<^verbatim>\<open>start_proc\<close>).

  Exceptions are values. Only the classes that the module itself distinguishes, or raises
  by its own statements, get a constructor of their own: \<^verbatim>\<open>except OSError\<close> catches
  \<^verbatim>\<open>OSError\<close> and its subclasses (\<^verbatim>\<open>ConnectionRefusedError\<close> is one), \<^verbatim>\<open>dict.pop\<close>
  raises \<^verbatim>\<open>KeyError\<close>, reading an unbound local raises \<^verbatim>\<open>UnboundLocalError\<close> (a subclass
  of \<^verbatim>\<open>NameError\<close>), a failed \<^verbatim>\<open>assert\<close> raises \<^verbatim>\<open>AssertionError\<close>.
  \<^verbatim>\<open>RuntimeError\<close> stands for the exceptions of the collaborators that are not \<^verbatim>\<open>OSError\<close>s.
\<close>

datatype exn =
    OSError
  | ConnectionRefusedError
  | KeyError string
  | UnboundLocalError string
  | AssertionError
  | RuntimeError

fun isinstance_OSError :: "exn \<Rightarrow> bool" where
  "isinstance_OSError OSError = True"
| "isinstance_OSError ConnectionRefusedError = True"
| "isinstance_OSError _ = False"

fun isinstance_NameError :: "exn \<Rightarrow> bool" where
  "isinstance_NameError (UnboundLocalError _) = True"
| "isinstance_NameError _ = False"

datatype pyval = PStr string | PInt int | PBool bool

text \<open>
  A Python \<^verbatim>\<open>dict\<close> keeps insertion order and has one entry per key: an association list.
  \<^verbatim>\<open>d[k] = v\<close> overwrites the entry of an existing key in place and appends a new key at
  the end; \<^verbatim>\<open>d.pop(k)\<close> removes the entry and raises \<^verbatim>\<open>KeyError\<close> when there is none (the
  source discards the popped value).
\<close>

type_synonym pydict = "(string \<times> pyval) list"

fun dict_set :: "'k \<Rightarrow> 'v \<Rightarrow> ('k \<times> 'v) list \<Rightarrow> ('k \<times> 'v) list" where
  "dict_set k v [] = [(k, v)]"
| "dict_set k v (p # ps) = (if fst p = k then (k, v) # ps else p # dict_set k v ps)"

definition dict_pop :: "string \<Rightarrow> pydict \<Rightarrow> exn + pydict" where
  "dict_pop k d =
     (case map_of d k of
        None \<Rightarrow> Inl (KeyError k)
      | Some _ \<Rightarrow> Inr (filter (\<lambda>p. fst p \<noteq> k) d))"

section \<open>Records of the registry store\<close>

text \<open>
  Experiment, run and registration records are documents of the registry store. The
  module reads \<^verbatim>\<open>expt_record['key']['expt_id']\<close>, the three ids of \<^verbatim>\<open>run_record['key']\<close> and
  \<^verbatim>\<open>reg_record['participant']\<close>; these are the fields below. The participant payload stays
  a dictionary, because the module pops and overwrites its entries by name.
\<close>

record run_keys =
  project_id :: string
  expt_id :: string
  run_id :: string

record expt_keys =
  e_project_id :: string
  e_expt_id :: string

record expt_record =
  e_key :: expt_keys
  e_payload :: pydict

record run_record =
  r_key :: run_keys
  r_payload :: pydict

record reg_record =
  participant :: pydict

section \<open>The process state\<close>

text \<open>
  Worker objects live in a heap; a reference is an index into it, and constructing an
  object appends it, so that a new object is never identical to an older one. The two
  module-level references \<^verbatim>\<open>sy.local_worker\<close> and \<^verbatim>\<open>grid_hook.local_worker\<close> are fields of
  the state. The trace records, in program order, the calls and assignments that the
  claims speak about.
\<close>

type_synonym ref = nat

datatype worker_obj =
    VirtualWorker string bool bool bool
      \<comment> \<open>\<^verbatim>\<open>id\<close>, \<^verbatim>\<open>is_client_worker\<close>, \<^verbatim>\<open>log_msgs\<close>, \<^verbatim>\<open>verbose\<close>\<close>
  | WebsocketClientWorker bool pydict
      \<comment> \<open>\<^verbatim>\<open>is_client_worker\<close>, \<^verbatim>\<open>**config\<close>\<close>

datatype event =
    GovInitialise bool run_keys "reg_record list"
  | GovTerminate bool run_keys "reg_record list"
  | AssignGridHookLocalWorker ref
  | AssignSyLocalWorker ref
  | WSOpen ref
  | RegistryRemove ref
  | Del ref

record state =
  heap :: "worker_obj list"
  sy_local_worker :: ref
  grid_hook_local_worker :: ref
  trace :: "event list"

text \<open>
  \<^verbatim>\<open>REF_WORKER = sy.local_worker\<close> is evaluated once, when the module is imported: it is
  the worker that the hook created, the first object of the heap.
\<close>

definition REF_WORKER :: ref where
  "REF_WORKER = 0"

definition initial_state :: state where
  "initial_state =
     \<lparr>heap = [VirtualWorker ''me'' False False False],
      sy_local_worker = REF_WORKER,
      grid_hook_local_worker = REF_WORKER,
      trace = []\<rparr>"

definition log_event :: "event \<Rightarrow> state \<Rightarrow> state" where
  "log_event ev s = s\<lparr>trace := trace s @ [ev]\<rparr>"

definition new_object :: "worker_obj \<Rightarrow> state \<Rightarrow> ref \<times> state" where
  "new_object obj s = (length (heap s), s\<lparr>heap := heap s @ [obj]\<rparr>)"

section \<open>External collaborators\<close>

text \<open>
  What the module calls but does not define is a parameter of the model:
  \<^verbatim>\<open>RPCFormatter.strip_keys\<close>, the constructor of PySyft's \<^verbatim>\<open>WebsocketClientWorker\<close>
  (which opens the connection and may raise), the loaders' constructors \<^verbatim>\<open>Model\<close> and
  \<^verbatim>\<open>Arguments\<close>, the training engine \<^verbatim>\<open>FederatedLearning\<close>, the configured output
  directory and \<^verbatim>\<open>Path.mkdir\<close>. A function into \<open>exn option\<close> says whether the call raises.
  The engine object is the record of the four arguments of its constructor; what the
  constructor itself may raise is counted with \<^verbatim>\<open>load()\<close>, the statement that follows it.
  None of these collaborators assigns the two module-level references or touches the
  trace.
\<close>

record fl_expt =
  fl_args :: run_record
  fl_ttp :: ref
  fl_workers :: "ref list"
  fl_model :: expt_record

type_synonym out_paths = "(string \<times> string) list"

record world =
  strip_keys :: "pydict \<Rightarrow> pydict"
  ws_client_raises :: "pydict \<Rightarrow> exn option"
  model_raises :: "expt_record \<Rightarrow> exn option"
  arguments_raises :: "run_record \<Rightarrow> exn option"
  fl_load_raises :: "fl_expt \<Rightarrow> exn option"
  fl_fit_raises :: "fl_expt \<Rightarrow> exn option"
  out_dir :: string
  mkdir_raises :: "string list \<Rightarrow> exn option"
  fl_export :: "fl_expt \<Rightarrow> string list \<Rightarrow> exn + out_paths"

section \<open>Connection manager\<close>

text \<open>
  \<^verbatim>\<open>connect_to_ttp\<close>: construct the \<^verbatim>\<open>VirtualWorker\<close> with id \<^verbatim>\<open>'ttp'\<close>, assign it to both
  module-level references, check both with \<^verbatim>\<open>assert ... is ...\<close>, return
  \<^verbatim>\<open>grid_hook.local_worker\<close>.
\<close>

definition connect_to_ttp :: "bool \<Rightarrow> bool \<Rightarrow> state \<Rightarrow> (exn + ref) \<times> state" where
  "connect_to_ttp log_msgs verbose s =
     (let (ttp, s1) = new_object (VirtualWorker ''ttp'' False log_msgs verbose) s;
          s2 = log_event (AssignSyLocalWorker ttp) (s1\<lparr>sy_local_worker := ttp\<rparr>);
          s3 = log_event (AssignGridHookLocalWorker ttp) (s2\<lparr>grid_hook_local_worker := ttp\<rparr>)
      in if ttp \<noteq> grid_hook_local_worker s3 then (Inl AssertionError, s3)
         else if ttp \<noteq> sy_local_worker s3 then (Inl AssertionError, s3)
         else (Inr (grid_hook_local_worker s3), s3))"

text \<open>
  The body of the loop of \<^verbatim>\<open>connect_to_workers\<close> up to the constructor call: strip the
  participant payload, pop \<^verbatim>\<open>'f_port'\<close>, overwrite \<^verbatim>\<open>'log_msgs'\<close> and \<^verbatim>\<open>'verbose'\<close>.
\<close>

definition worker_config :: "world \<Rightarrow> bool \<Rightarrow> bool \<Rightarrow> reg_record \<Rightarrow> exn + pydict" where
  "worker_config w log_msgs verbose reg_rec =
     (let config = strip_keys w (participant reg_rec)
      in case dict_pop ''f_port'' config of
           Inl e \<Rightarrow> Inl e
         | Inr config \<Rightarrow>
             (let config = dict_set ''log_msgs'' (PBool log_msgs) config;
                  config = dict_set ''verbose'' (PBool verbose) config
              in Inr config))"

text \<open>
  \<^verbatim>\<open>WebsocketClientWorker(hook=grid_hook, is_client_worker=False, **config)\<close>: either the
  constructor raises and nothing is created, or the new handle is on the heap and its
  connection is open.
\<close>

definition ws_client_worker :: "world \<Rightarrow> pydict \<Rightarrow> state \<Rightarrow> (exn + ref) \<times> state" where
  "ws_client_worker w config s =
     (case ws_client_raises w config of
        Some e \<Rightarrow> (Inl e, s)
      | None \<Rightarrow>
          (let (r, s1) = new_object (WebsocketClientWorker False config) s
           in (Inr r, log_event (WSOpen r) s1)))"

text \<open>
  The loop \<^verbatim>\<open>for reg_record in reg_records\<close> with its accumulator \<^verbatim>\<open>workers\<close>. There is no
  \<^verbatim>\<open>try\<close> in \<^verbatim>\<open>connect_to_workers\<close>: an exception leaves the loop and the function at once.
\<close>

fun connect_loop ::
  "world \<Rightarrow> reg_record list \<Rightarrow> bool \<Rightarrow> bool \<Rightarrow> ref list \<Rightarrow> state \<Rightarrow> (exn + ref list) \<times> state"
where
  "connect_loop w [] log_msgs verbose workers s = (Inr workers, s)"
| "connect_loop w (reg_rec # rest) log_msgs verbose workers s =
     (case worker_config w log_msgs verbose reg_rec of
        Inl e \<Rightarrow> (Inl e, s)
      | Inr config \<Rightarrow>
          (case ws_client_worker w config s of
             (Inl e, s1) \<Rightarrow> (Inl e, s1)
           | (Inr curr_worker, s1) \<Rightarrow>
               connect_loop w rest log_msgs verbose (workers @ [curr_worker]) s1))"

definition connect_to_workers ::
  "world \<Rightarrow> run_keys \<Rightarrow> reg_record list \<Rightarrow> bool \<Rightarrow> bool \<Rightarrow> bool \<Rightarrow> state
     \<Rightarrow> (exn + ref list) \<times> state"
where
  "connect_to_workers w keys reg_records dockerised log_msgs verbose s =
     connect_loop w reg_records log_msgs verbose [] s"

text \<open>
  \<^verbatim>\<open>terminate_connections\<close>: restore both module-level references, remove the coordinator
  from the registry and delete it, then for each worker remove it from the registry and
  delete it.
\<close>

fun terminate_loop :: "ref list \<Rightarrow> state \<Rightarrow> state" where
  "terminate_loop [] s = s"
| "terminate_loop (worker # rest) s =
     terminate_loop rest (log_event (Del worker) (log_event (RegistryRemove worker) s))"

definition terminate_connections :: "ref \<Rightarrow> ref list \<Rightarrow> state \<Rightarrow> state" where
  "terminate_connections ttp workers s =
     (let s1 = log_event (AssignGridHookLocalWorker REF_WORKER)
                 (s\<lparr>grid_hook_local_worker := REF_WORKER\<rparr>);
          s2 = log_event (AssignSyLocalWorker REF_WORKER) (s1\<lparr>sy_local_worker := REF_WORKER\<rparr>);
          s3 = log_event (RegistryRemove ttp) s2;
          s4 = log_event (Del ttp) s3
      in terminate_loop workers s4)"

section \<open>Lifecycle signaler\<close>

text \<open>
  Modelled from the spec: the class \<^verbatim>\<open>Governor\<close> of \<^verbatim>\<open>rest_rpc/training/core/utils.py\<close> is
  not among the sources. The spec describes \<^verbatim>\<open>initialise\<close> and \<^verbatim>\<open>terminate\<close> as
  out-of-band notices to each participant for one combination, whose failure is logged
  and not fatal: each call is recorded in the trace with the arguments of
  \<^verbatim>\<open>Governor(dockerised=dockerised, **keys)\<close> and of the call, and returns.
\<close>

definition governor_initialise :: "bool \<Rightarrow> run_keys \<Rightarrow> reg_record list \<Rightarrow> state \<Rightarrow> state" where
  "governor_initialise dockerised keys reg_records s =
     log_event (GovInitialise dockerised keys reg_records) s"

definition governor_terminate :: "bool \<Rightarrow> run_keys \<Rightarrow> reg_record list \<Rightarrow> state \<Rightarrow> state" where
  "governor_terminate dockerised keys reg_records s =
     log_event (GovTerminate dockerised keys reg_records) s"

section \<open>Session bracket\<close>

text \<open>
  The loaders build a \<^verbatim>\<open>Model\<close> and an \<^verbatim>\<open>Arguments\<close> object from a record (through
  \<^verbatim>\<open>strip_keys\<close> and the two constructors, none of them among the sources); the object is
  represented by the record it was built from, and the world says whether building raises.
\<close>

definition load_selected_experiment :: "world \<Rightarrow> expt_record \<Rightarrow> exn + expt_record" where
  "load_selected_experiment w expt_rec =
     (case model_raises w expt_rec of Some e \<Rightarrow> Inl e | None \<Rightarrow> Inr expt_rec)"

definition load_selected_run :: "world \<Rightarrow> run_record \<Rightarrow> exn + run_record" where
  "load_selected_run w run_rec =
     (case arguments_raises w run_rec of Some e \<Rightarrow> Inl e | None \<Rightarrow> Inr run_rec)"

text \<open>
  \<^verbatim>\<open>train_combination\<close>, the closure inside \<^verbatim>\<open>start_expt_run_training\<close>, with the variables
  it captures as arguments. It has no \<^verbatim>\<open>try\<close>: \<^verbatim>\<open>terminate_connections\<close> is its
  second-last statement and runs only when every statement before it has returned.
\<close>

definition train_combination ::
  "world \<Rightarrow> run_keys \<Rightarrow> reg_record list \<Rightarrow> expt_record \<Rightarrow> run_record \<Rightarrow> bool \<Rightarrow> bool \<Rightarrow> bool
     \<Rightarrow> state \<Rightarrow> (exn + out_paths) \<times> state"
where
  "train_combination w keys registrations experiment run dockerised log_msgs verbose s =
     (case connect_to_ttp log_msgs verbose s of
        (Inl e, s1) \<Rightarrow> (Inl e, s1)
      | (Inr ttp, s1) \<Rightarrow>
     (case connect_to_workers w keys registrations dockerised log_msgs verbose s1 of
        (Inl e, s2) \<Rightarrow> (Inl e, s2)
      | (Inr workers, s2) \<Rightarrow>
     (case load_selected_experiment w experiment of
        Inl e \<Rightarrow> (Inl e, s2)
      | Inr model \<Rightarrow>
     (case load_selected_run w run of
        Inl e \<Rightarrow> (Inl e, s2)
      | Inr args \<Rightarrow>
     (let fl = \<lparr>fl_args = args, fl_ttp = ttp, fl_workers = workers, fl_model = model\<rparr>
      in case fl_load_raises w fl of
        Some e \<Rightarrow> (Inl e, s2)
      | None \<Rightarrow>
     (case fl_fit_raises w fl of
        Some e \<Rightarrow> (Inl e, s2)
      | None \<Rightarrow>
     (let res_dir = [out_dir w, project_id keys, expt_id keys, run_id keys]
      in case mkdir_raises w res_dir of
        Some e \<Rightarrow> (Inl e, s2)
      | None \<Rightarrow>
     (case fl_export w fl res_dir of
        Inl e \<Rightarrow> (Inl e, s2)
      | Inr paths \<Rightarrow>
          (Inr paths, terminate_connections ttp workers s2)))))))))"

text \<open>
  \<^verbatim>\<open>start_expt_run_training\<close>: signal \<^verbatim>\<open>initialise\<close>; run \<^verbatim>\<open>train_combination\<close> inside
  \<^verbatim>\<open>try ... except OSError\<close>, which binds \<^verbatim>\<open>results\<close> only when the call returns and lets
  every exception that is not an \<^verbatim>\<open>OSError\<close> leave the function; signal \<^verbatim>\<open>terminate\<close>;
  \<^verbatim>\<open>return results\<close>, which reads a local that the handler's path never bound.
\<close>

definition start_expt_run_training ::
  "world \<Rightarrow> run_keys \<Rightarrow> reg_record list \<Rightarrow> expt_record \<Rightarrow> run_record \<Rightarrow> bool \<Rightarrow> bool \<Rightarrow> bool
     \<Rightarrow> state \<Rightarrow> (exn + out_paths) \<times> state"
where
  "start_expt_run_training w keys registrations experiment run dockerised log_msgs verbose s =
     (let s0 = governor_initialise dockerised keys registrations s
      in case (case train_combination w keys registrations experiment run
                       dockerised log_msgs verbose s0 of
                 (Inr r, s1) \<Rightarrow> (Inr (Some r), s1)
               | (Inl e, s1) \<Rightarrow>
                   if isinstance_OSError e then (Inr None, s1) else (Inl e, s1)) of
           (Inl e, s1) \<Rightarrow> (Inl e, s1)
         | (Inr results, s1) \<Rightarrow>
             (let s2 = governor_terminate dockerised keys registrations s1
              in case results of
                   None \<Rightarrow> (Inl (UnboundLocalError ''results''), s2)
                 | Some r \<Rightarrow> (Inr r, s2)))"

section \<open>Combination scheduler\<close>

record kwargs =
  kw_experiments :: "expt_record list"
  kw_runs :: "run_record list"
  kw_registrations :: "reg_record list"
  kw_verbose :: bool
  kw_log_msgs :: bool
  kw_dockerised :: bool

record params =
  p_keys :: run_keys
  p_registrations :: "reg_record list"
  p_experiment :: expt_record
  p_run :: run_record
  p_dockerised :: bool
  p_log_msgs :: bool
  p_verbose :: bool

type_synonym combination_key = "string \<times> string \<times> string"

text \<open>
  The body of the inner loop of \<^verbatim>\<open>start_proc\<close>: a run whose \<^verbatim>\<open>expt_id\<close> equals that of
  the current experiment is stored in the dictionary \<^verbatim>\<open>training_combinations\<close> under the
  tuple of its three ids.
\<close>

definition run_step ::
  "kwargs \<Rightarrow> expt_record \<Rightarrow> run_record \<Rightarrow> (combination_key \<times> params) list
     \<Rightarrow> (combination_key \<times> params) list"
where
  "run_step kw expt_rec run_rec tc =
     (let curr_expt_id = e_expt_id (e_key expt_rec);
          run_key = r_key run_rec;
          r_project_id = project_id run_key;
          r_expt_id = expt_id run_key;
          r_run_id = run_id run_key
      in if r_expt_id = curr_expt_id
         then dict_set (r_project_id, r_expt_id, r_run_id)
                \<lparr>p_keys = run_key,
                 p_registrations = kw_registrations kw,
                 p_experiment = expt_rec,
                 p_run = run_rec,
                 p_dockerised = kw_dockerised kw,
                 p_log_msgs = kw_log_msgs kw,
                 p_verbose = kw_verbose kw\<rparr> tc
         else tc)"

definition training_combinations :: "kwargs \<Rightarrow> (combination_key \<times> params) list" where
  "training_combinations kw =
     fold (\<lambda>expt_rec. fold (run_step kw expt_rec) (kw_runs kw)) (kw_experiments kw) []"

text \<open>
  The dictionary comprehension over \<^verbatim>\<open>training_combinations.items()\<close>: one call of
  \<^verbatim>\<open>start_expt_run_training(**kwargs)\<close> per entry, in insertion order, outside any \<^verbatim>\<open>try\<close>.
\<close>

fun completed_trainings ::
  "world \<Rightarrow> (combination_key \<times> params) list \<Rightarrow> (combination_key \<times> out_paths) list \<Rightarrow> state
     \<Rightarrow> (exn + (combination_key \<times> out_paths) list) \<times> state"
where
  "completed_trainings w [] completed s = (Inr completed, s)"
| "completed_trainings w ((combination_key, p) # rest) completed s =
     (case start_expt_run_training w (p_keys p) (p_registrations p) (p_experiment p) (p_run p)
             (p_dockerised p) (p_log_msgs p) (p_verbose p) s of
        (Inl e, s1) \<Rightarrow> (Inl e, s1)
      | (Inr r, s1) \<Rightarrow> completed_trainings w rest (dict_set combination_key r completed) s1)"

definition start_proc ::
  "world \<Rightarrow> kwargs \<Rightarrow> state \<Rightarrow> (exn + (combination_key \<times> out_paths) list) \<times> state"
where
  "start_proc w kw s = completed_trainings w (training_combinations kw) [] s"

section \<open>Observations on the trace\<close>

text \<open>
  The events that a call adds to the trace are those after the events that were there
  when it started.
\<close>

definition session_events :: "state \<Rightarrow> state \<Rightarrow> event list" where
  "session_events s s' = drop (length (trace s)) (trace s')"

definition terminate_calls :: "event list \<Rightarrow> nat" where
  "terminate_calls evs = length [k. GovTerminate d k regs \<leftarrow> evs]"

definition initialise_calls :: "event list \<Rightarrow> nat" where
  "initialise_calls evs = length [k. GovInitialise d k regs \<leftarrow> evs]"

definition opened :: "event list \<Rightarrow> ref list" where
  "opened evs = [r. WSOpen r \<leftarrow> evs]"

definition registry_removed :: "event list \<Rightarrow> ref list" where
  "registry_removed evs = [r. RegistryRemove r \<leftarrow> evs]"

definition released :: "event list \<Rightarrow> ref list" where
  "released evs = [r. Del r \<leftarrow> evs]"

text \<open>
  The objects that a call constructs are those on the heap beyond the objects that
  were there when it started.
\<close>

definition constructed :: "state \<Rightarrow> state \<Rightarrow> worker_obj list" where
  "constructed s s' = drop (length (heap s)) (heap s')"

text \<open>
  A handle is torn down when it has been removed from the registry and deleted.
\<close>

definition torn_down :: "event list \<Rightarrow> ref set" where
  "torn_down evs = set (registry_removed evs) \<inter> set (released evs)"

text \<open>
  \<open>happens_before a b evs\<close>: both events occur, and the first \<open>a\<close> comes before the
  first \<open>b\<close>.
\<close>

fun happens_before :: "event \<Rightarrow> event \<Rightarrow> event list \<Rightarrow> bool" where
  "happens_before a b [] = False"
| "happens_before a b (x # xs) =
     (if x = b then False
      else if x = a then b \<in> set xs
      else happens_before a b xs)"

text \<open>
  What the loop body of \<^verbatim>\<open>connect_to_workers\<close> does with one record: the exception
  it raises, if any, and the configuration it passes to the constructor.
\<close>

definition open_error :: "world \<Rightarrow> bool \<Rightarrow> bool \<Rightarrow> reg_record \<Rightarrow> exn option" where
  "open_error w log_msgs verbose reg_rec =
     (case worker_config w log_msgs verbose reg_rec of
        Inl e \<Rightarrow> Some e
      | Inr config \<Rightarrow> ws_client_raises w config)"

definition config_of :: "world \<Rightarrow> bool \<Rightarrow> bool \<Rightarrow> reg_record \<Rightarrow> pydict" where
  "config_of w log_msgs verbose reg_rec =
     (case worker_config w log_msgs verbose reg_rec of Inl e \<Rightarrow> [] | Inr config \<Rightarrow> config)"

definition handle_config :: "state \<Rightarrow> ref \<Rightarrow> pydict option" where
  "handle_config s r =
     (if r < length (heap s)
      then (case heap s ! r of
              WebsocketClientWorker c config \<Rightarrow> Some config
            | VirtualWorker i c l v \<Rightarrow> None)
      else None)"

text \<open>
  The events of \<^verbatim>\<open>terminate_connections\<close> for a coordinator and a list of workers.
\<close>

definition teardown_events :: "ref \<Rightarrow> ref list \<Rightarrow> event list" where
  "teardown_events ttp ws =
     [AssignGridHookLocalWorker REF_WORKER, AssignSyLocalWorker REF_WORKER,
      RegistryRemove ttp, Del ttp] @ concat (map (\<lambda>r. [RegistryRemove r, Del r]) ws)"

section \<open>The inner join, in the words of the specification\<close>

text \<open>
  "A combination exists for every (experiment, run) pair whose experiment_id matches",
  experiments in the outer position, and "each combination's key is
  (project_id, experiment_id, run_id)" of the run.
\<close>

definition matching_pairs ::
  "expt_record list \<Rightarrow> run_record list \<Rightarrow> (expt_record \<times> run_record) list"
where
  "matching_pairs es rs =
     [(e, r). e \<leftarrow> es, r \<leftarrow> rs, expt_id (r_key r) = e_expt_id (e_key e)]"

definition combination_key_of :: "run_record \<Rightarrow> combination_key" where
  "combination_key_of r = (project_id (r_key r), expt_id (r_key r), run_id (r_key r))"

definition params_of :: "kwargs \<Rightarrow> expt_record \<Rightarrow> run_record \<Rightarrow> params" where
  "params_of kw e r =
     \<lparr>p_keys = r_key r,
      p_registrations = kw_registrations kw,
      p_experiment = e,
      p_run = r,
      p_dockerised = kw_dockerised kw,
      p_log_msgs = kw_log_msgs kw,
      p_verbose = kw_verbose kw\<rparr>"

section \<open>Sessions that return and sessions that raise\<close>

text \<open>
  \<open>session_returns w p\<close>: in the world \<open>w\<close> no collaborator of the session of the
  combination \<open>p\<close> raises, whatever coordinator and handles the engine is given.
  \<open>session_raises w p e\<close>: \<^verbatim>\<open>train_combination\<close> for \<open>p\<close> raises \<open>e\<close> from every state.
\<close>

definition session_returns :: "world \<Rightarrow> params \<Rightarrow> bool" where
  "session_returns w p \<longleftrightarrow>
     list_all (\<lambda>r. open_error w (p_log_msgs p) (p_verbose p) r = None) (p_registrations p) \<and>
     model_raises w (p_experiment p) = None \<and>
     arguments_raises w (p_run p) = None \<and>
     mkdir_raises w [out_dir w, project_id (p_keys p), expt_id (p_keys p), run_id (p_keys p)]
       = None \<and>
     (\<forall>t ws.
        fl_load_raises w
          \<lparr>fl_args = p_run p, fl_ttp = t, fl_workers = ws, fl_model = p_experiment p\<rparr> = None \<and>
        fl_fit_raises w
          \<lparr>fl_args = p_run p, fl_ttp = t, fl_workers = ws, fl_model = p_experiment p\<rparr> = None \<and>
        (\<exists>paths.
           fl_export w
             \<lparr>fl_args = p_run p, fl_ttp = t, fl_workers = ws, fl_model = p_experiment p\<rparr>
             [out_dir w, project_id (p_keys p), expt_id (p_keys p), run_id (p_keys p)]
           = Inr paths))"

text \<open>
  The engine object and the output directory of a session that starts on a heap of \<open>n\<close>
  objects with \<open>k\<close> registration records that can all be opened: the coordinator is object
  \<open>n\<close>, the handles are the \<open>k\<close> objects after it.
\<close>

definition session_engine :: "expt_record \<Rightarrow> run_record \<Rightarrow> nat \<Rightarrow> nat \<Rightarrow> fl_expt" where
  "session_engine expt_rec run_rec n k =
     \<lparr>fl_args = run_rec, fl_ttp = n, fl_workers = [Suc n..<Suc n + k], fl_model = expt_rec\<rparr>"

definition res_dir_of :: "world \<Rightarrow> run_keys \<Rightarrow> string list" where
  "res_dir_of w keys = [out_dir w, project_id keys, expt_id keys, run_id keys]"

text \<open>
  The two ways a call that started in state \<open>s\<close> can end. It raises \<open>e\<close> having opened the
  handles \<open>ws\<close>, and nothing has been removed from the registry or deleted. Or it returns
  \<open>paths\<close> having opened the handles \<open>ws\<close>, and the coordinator \<open>ttp\<close> and then each handle
  have been removed from the registry and deleted.
\<close>

definition raises_without_teardown ::
  "(exn + out_paths) \<times> state \<Rightarrow> state \<Rightarrow> exn \<Rightarrow> ref list \<Rightarrow> bool"
where
  "raises_without_teardown res s e ws \<longleftrightarrow>
     fst res = Inl e \<and>
     opened (session_events s (snd res)) = ws \<and>
     registry_removed (session_events s (snd res)) = [] \<and>
     released (session_events s (snd res)) = [] \<and>
     torn_down (session_events s (snd res)) = {}"

definition returns_with_teardown ::
  "(exn + out_paths) \<times> state \<Rightarrow> state \<Rightarrow> out_paths \<Rightarrow> ref \<Rightarrow> ref list \<Rightarrow> bool"
where
  "returns_with_teardown res s paths ttp ws \<longleftrightarrow>
     fst res = Inr paths \<and>
     opened (session_events s (snd res)) = ws \<and>
     registry_removed (session_events s (snd res)) = ttp # ws \<and>
     released (session_events s (snd res)) = ttp # ws \<and>
     torn_down (session_events s (snd res)) = insert ttp (set ws)"

definition session_raises :: "world \<Rightarrow> params \<Rightarrow> exn \<Rightarrow> bool" where
  "session_raises w p e \<longleftrightarrow>
     (\<forall>s. fst (train_combination w (p_keys p) (p_registrations p) (p_experiment p) (p_run p)
                 (p_dockerised p) (p_log_msgs p) (p_verbose p) s) = Inl e)"

section \<open>Concrete inputs\<close>

text \<open>
  The participants of the repository's simulation scripts, a world in which every
  collaborator succeeds, and variations of it in which one of them raises.
\<close>

definition participant_1 :: reg_record where
  "participant_1 =
     \<lparr>participant =
        [(''doc_id'', PInt 1), (''id'', PStr ''test_participant_1''),
         (''host'', PStr ''172.17.0.2''), (''port'', PInt 8020),
         (''log_msgs'', PBool False), (''verbose'', PBool False), (''f_port'', PInt 5000)]\<rparr>"

definition participant_2 :: reg_record where
  "participant_2 =
     \<lparr>participant =
        [(''doc_id'', PInt 2), (''id'', PStr ''test_participant_2''),
         (''host'', PStr ''172.17.0.3''), (''port'', PInt 8020),
         (''log_msgs'', PBool False), (''verbose'', PBool False), (''f_port'', PInt 5000)]\<rparr>"

definition participant_no_f_port :: reg_record where
  "participant_no_f_port =
     \<lparr>participant =
        [(''id'', PStr ''test_participant_3''), (''host'', PStr ''172.17.0.4''),
         (''port'', PInt 8020), (''log_msgs'', PBool False), (''verbose'', PBool False)]\<rparr>"

definition world_ok :: world where
  "world_ok =
     \<lparr>strip_keys = filter (\<lambda>p. fst p \<noteq> ''doc_id''),
      ws_client_raises = (\<lambda>config. None),
      model_raises = (\<lambda>expt_rec. None),
      arguments_raises = (\<lambda>run_rec. None),
      fl_load_raises = (\<lambda>fl. None),
      fl_fit_raises = (\<lambda>fl. None),
      out_dir = ''outputs'',
      mkdir_raises = (\<lambda>res_dir. None),
      fl_export = (\<lambda>fl res_dir. Inr [(''global'', concat res_dir)])\<rparr>"

definition world_fit_raises :: "exn \<Rightarrow> world" where
  "world_fit_raises e = world_ok\<lparr>fl_fit_raises := (\<lambda>fl. Some e)\<rparr>"

definition world_model_raises :: "exn \<Rightarrow> world" where
  "world_model_raises e = world_ok\<lparr>model_raises := (\<lambda>expt_rec. Some e)\<rparr>"

definition world_export_raises :: "exn \<Rightarrow> world" where
  "world_export_raises e = world_ok\<lparr>fl_export := (\<lambda>fl res_dir. Inl e)\<rparr>"

definition world_B_fit_raises :: world where
  "world_B_fit_raises =
     world_ok\<lparr>fl_fit_raises :=
       (\<lambda>fl. if e_expt_id (e_key (fl_model fl)) = ''B'' then Some RuntimeError else None)\<rparr>"

definition world_p2_unreachable :: world where
  "world_p2_unreachable =
     world_ok\<lparr>ws_client_raises :=
       (\<lambda>config. if map_of config ''id'' = Some (PStr ''test_participant_2'')
                 then Some ConnectionRefusedError else None)\<rparr>"

definition expt_A :: expt_record where
  "expt_A = \<lparr>e_key = \<lparr>e_project_id = ''test_project'', e_expt_id = ''A''\<rparr>, e_payload = []\<rparr>"

definition expt_A_elsewhere :: expt_record where
  "expt_A_elsewhere =
     \<lparr>e_key = \<lparr>e_project_id = ''other_project'', e_expt_id = ''A''\<rparr>, e_payload = []\<rparr>"

definition expt_B :: expt_record where
  "expt_B = \<lparr>e_key = \<lparr>e_project_id = ''test_project'', e_expt_id = ''B''\<rparr>, e_payload = []\<rparr>"

definition run_of :: "string \<Rightarrow> string \<Rightarrow> run_record" where
  "run_of e r =
     \<lparr>r_key = \<lparr>project_id = ''test_project'', expt_id = e, run_id = r\<rparr>, r_payload = []\<rparr>"

definition keys_A1 :: run_keys where
  "keys_A1 = \<lparr>project_id = ''test_project'', expt_id = ''A'', run_id = ''R1''\<rparr>"

definition kwargs_of :: "expt_record list \<Rightarrow> run_record list \<Rightarrow> reg_record list \<Rightarrow> kwargs" where
  "kwargs_of es rs regs =
     \<lparr>kw_experiments = es, kw_runs = rs, kw_registrations = regs,
      kw_verbose = False, kw_log_msgs = False, kw_dockerised = True\<rparr>"

definition example_kwargs :: kwargs where
  "example_kwargs =
     kwargs_of [expt_A, expt_B] [run_of ''A'' ''R1'', run_of ''B'' ''R2'', run_of ''B'' ''R3'']
       [participant_1, participant_2]"

section \<open>Facts about the connection manager\<close>

text \<open>
  \<^verbatim>\<open>connect_to_ttp\<close> always returns: the two assertions compare a reference with the
  value just assigned to it.
\<close>

lemma connect_to_ttp_eq:
  "connect_to_ttp lm v s =
     (Inr (length (heap s)),
      s\<lparr>heap := heap s @ [VirtualWorker ''ttp'' False lm v],
        sy_local_worker := length (heap s),
        grid_hook_local_worker := length (heap s),
        trace := trace s @ [AssignSyLocalWorker (length (heap s)),
                            AssignGridHookLocalWorker (length (heap s))]\<rparr>)"
  by (simp add: connect_to_ttp_def new_object_def log_event_def Let_def)

lemma connect_loop_ok:
  "\<forall>r\<in>set rs. open_error w lm v r = None \<Longrightarrow>
   connect_loop w rs lm v acc s =
     (Inr (acc @ [length (heap s)..<length (heap s) + length rs]),
      s\<lparr>heap := heap s @ map (\<lambda>r. WebsocketClientWorker False (config_of w lm v r)) rs,
        trace := trace s @ map WSOpen [length (heap s)..<length (heap s) + length rs]\<rparr>)"
proof (induction rs arbitrary: acc s)
  case Nil
  then show ?case by simp
next
  case (Cons r rs)
  from Cons.prems obtain c where c: "worker_config w lm v r = Inr c" "ws_client_raises w c = None"
    by (auto simp: open_error_def split: sum.splits)
  have cfg: "config_of w lm v r = c" using c by (simp add: config_of_def)
  have rest: "\<forall>r\<in>set rs. open_error w lm v r = None" using Cons.prems by simp
  show ?case
    using c cfg Cons.IH[OF rest]
    by (simp add: ws_client_worker_def new_object_def log_event_def upt_conv_Cons del: upt_Suc)
qed


lemma connect_loop_fail:
  "\<forall>r\<in>set pre. open_error w lm v r = None \<Longrightarrow> open_error w lm v rk = Some e \<Longrightarrow>
   connect_loop w (pre @ rk # post) lm v acc s =
     (Inl e,
      s\<lparr>heap := heap s @ map (\<lambda>r. WebsocketClientWorker False (config_of w lm v r)) pre,
        trace := trace s @ map WSOpen [length (heap s)..<length (heap s) + length pre]\<rparr>)"
proof (induction pre arbitrary: acc s)
  case Nil
  then show ?case
    by (auto simp: open_error_def ws_client_worker_def split: sum.splits)
next
  case (Cons r pre)
  from Cons.prems obtain c where c: "worker_config w lm v r = Inr c" "ws_client_raises w c = None"
    by (auto simp: open_error_def split: sum.splits)
  have cfg: "config_of w lm v r = c" using c by (simp add: config_of_def)
  have rest: "\<forall>r\<in>set pre. open_error w lm v r = None" using Cons.prems by simp
  show ?case
    using c cfg Cons.IH[OF rest Cons.prems(2)]
    by (simp add: ws_client_worker_def new_object_def log_event_def upt_conv_Cons del: upt_Suc)
qed

lemma terminate_loop_eq:
  "terminate_loop ws s = s\<lparr>trace := trace s @ concat (map (\<lambda>r. [RegistryRemove r, Del r]) ws)\<rparr>"
  by (induction ws arbitrary: s) (simp_all add: log_event_def)

lemma terminate_connections_eq:
  "terminate_connections ttp ws s =
     s\<lparr>sy_local_worker := REF_WORKER, grid_hook_local_worker := REF_WORKER,
       trace := trace s @ [AssignGridHookLocalWorker REF_WORKER, AssignSyLocalWorker REF_WORKER,
                           RegistryRemove ttp, Del ttp]
                        @ concat (map (\<lambda>r. [RegistryRemove r, Del r]) ws)\<rparr>"
  by (simp add: terminate_connections_def terminate_loop_eq log_event_def)

section \<open>Facts about the trace\<close>

lemma session_events_append [simp]:
  "trace s' = trace s @ evs \<Longrightarrow> session_events s s' = evs"
  by (simp add: session_events_def)

lemma opened_simps [simp]:
  "opened [] = []"
  "opened (WSOpen r # evs) = r # opened evs"
  "opened (RegistryRemove r # evs) = opened evs"
  "opened (Del r # evs) = opened evs"
  "opened (AssignSyLocalWorker r # evs) = opened evs"
  "opened (AssignGridHookLocalWorker r # evs) = opened evs"
  "opened (GovInitialise d k regs # evs) = opened evs"
  "opened (GovTerminate d k regs # evs) = opened evs"
  "opened (xs @ ys) = opened xs @ opened ys"
  by (simp_all add: opened_def)

lemma registry_removed_simps [simp]:
  "registry_removed [] = []"
  "registry_removed (WSOpen r # evs) = registry_removed evs"
  "registry_removed (RegistryRemove r # evs) = r # registry_removed evs"
  "registry_removed (Del r # evs) = registry_removed evs"
  "registry_removed (AssignSyLocalWorker r # evs) = registry_removed evs"
  "registry_removed (AssignGridHookLocalWorker r # evs) = registry_removed evs"
  "registry_removed (GovInitialise d k regs # evs) = registry_removed evs"
  "registry_removed (GovTerminate d k regs # evs) = registry_removed evs"
  "registry_removed (xs @ ys) = registry_removed xs @ registry_removed ys"
  by (simp_all add: registry_removed_def)

lemma released_simps [simp]:
  "released [] = []"
  "released (WSOpen r # evs) = released evs"
  "released (RegistryRemove r # evs) = released evs"
  "released (Del r # evs) = r # released evs"
  "released (AssignSyLocalWorker r # evs) = released evs"
  "released (AssignGridHookLocalWorker r # evs) = released evs"
  "released (GovInitialise d k regs # evs) = released evs"
  "released (GovTerminate d k regs # evs) = released evs"
  "released (xs @ ys) = released xs @ released ys"
  by (simp_all add: released_def)

lemma terminate_calls_simps [simp]:
  "terminate_calls [] = 0"
  "terminate_calls (WSOpen r # evs) = terminate_calls evs"
  "terminate_calls (RegistryRemove r # evs) = terminate_calls evs"
  "terminate_calls (Del r # evs) = terminate_calls evs"
  "terminate_calls (AssignSyLocalWorker r # evs) = terminate_calls evs"
  "terminate_calls (AssignGridHookLocalWorker r # evs) = terminate_calls evs"
  "terminate_calls (GovInitialise d k regs # evs) = terminate_calls evs"
  "terminate_calls (GovTerminate d k regs # evs) = Suc (terminate_calls evs)"
  "terminate_calls (xs @ ys) = terminate_calls xs + terminate_calls ys"
  by (simp_all add: terminate_calls_def)

lemma observe_opens [simp]:
  "opened (map WSOpen refs) = refs"
  "registry_removed (map WSOpen refs) = []"
  "released (map WSOpen refs) = []"
  "terminate_calls (map WSOpen refs) = 0"
  by (induction refs) simp_all

lemma observe_teardown [simp]:
  "opened (concat (map (\<lambda>r. [RegistryRemove r, Del r]) ws)) = []"
  "registry_removed (concat (map (\<lambda>r. [RegistryRemove r, Del r]) ws)) = ws"
  "released (concat (map (\<lambda>r. [RegistryRemove r, Del r]) ws)) = ws"
  "terminate_calls (concat (map (\<lambda>r. [RegistryRemove r, Del r]) ws)) = 0"
  by (induction ws) simp_all

lemma connect_loop_cases:
  obtains (ok) "\<forall>r\<in>set rs. open_error w lm v r = None"
  | (fail) pre rk post e where "rs = pre @ rk # post"
      "\<forall>r\<in>set pre. open_error w lm v r = None" "open_error w lm v rk = Some e"
proof (cases "\<forall>r\<in>set rs. open_error w lm v r = None")
  case True
  then show ?thesis by (rule ok)
next
  case False
  then have "\<exists>r\<in>set rs. open_error w lm v r \<noteq> None" by simp
  then obtain pre rk post where
    "rs = pre @ rk # post" "open_error w lm v rk \<noteq> None"
    "\<forall>r\<in>set pre. \<not> open_error w lm v r \<noteq> None"
    by (auto dest!: split_list_first_prop)
  then show ?thesis by (auto intro: fail)
qed

lemma connect_to_workers_shape:
  "\<exists>refs. (\<forall>r\<in>set refs. length (heap s) \<le> r) \<and>
     trace (snd (connect_to_workers w keys rs d lm v s)) = trace s @ map WSOpen refs \<and>
     sy_local_worker (snd (connect_to_workers w keys rs d lm v s)) = sy_local_worker s \<and>
     grid_hook_local_worker (snd (connect_to_workers w keys rs d lm v s)) = grid_hook_local_worker s \<and>
     (\<forall>ws. fst (connect_to_workers w keys rs d lm v s) = Inr ws \<longrightarrow> ws = refs)"
proof (cases rule: connect_loop_cases[of rs w lm v])
  case ok
  show ?thesis
    by (rule exI[of _ "[length (heap s)..<length (heap s) + length rs]"])
       (simp add: connect_to_workers_def connect_loop_ok[OF ok])
next
  case (fail pre rk post e)
  show ?thesis
    by (rule exI[of _ "[length (heap s)..<length (heap s) + length pre]"])
       (simp add: connect_to_workers_def fail(1) connect_loop_fail[OF fail(2,3)])
qed

section \<open>The events of one session\<close>

lemma train_combination_shape:
  "\<exists>refs. (\<forall>r\<in>set refs. length (heap s) < r) \<and>
     (case train_combination w keys regs ex rn d lm v s of
        (Inr paths, s') \<Rightarrow>
           trace s' = trace s @ [AssignSyLocalWorker (length (heap s)),
                                  AssignGridHookLocalWorker (length (heap s))]
                        @ map WSOpen refs @ teardown_events (length (heap s)) refs
      | (Inl e, s') \<Rightarrow>
           trace s' = trace s @ [AssignSyLocalWorker (length (heap s)),
                                  AssignGridHookLocalWorker (length (heap s))]
                        @ map WSOpen refs)"
proof -
  define s1 where "s1 = snd (connect_to_ttp lm v s)"
  have ttp: "connect_to_ttp lm v s = (Inr (length (heap s)), s1)"
    unfolding s1_def by (simp add: connect_to_ttp_eq)
  have tr1: "trace s1 = trace s @ [AssignSyLocalWorker (length (heap s)),
                                    AssignGridHookLocalWorker (length (heap s))]"
    and hp1: "length (heap s1) = Suc (length (heap s))"
    unfolding s1_def by (simp_all add: connect_to_ttp_eq)
  obtain res s2 where cw: "connect_to_workers w keys regs d lm v s1 = (res, s2)"
    by (cases "connect_to_workers w keys regs d lm v s1")
  from connect_to_workers_shape[of s1 w keys regs d lm v] cw
  obtain refs where refs: "\<forall>r\<in>set refs. length (heap s1) \<le> r"
    "trace s2 = trace s1 @ map WSOpen refs" "\<forall>ws. res = Inr ws \<longrightarrow> ws = refs"
    by auto
  have fresh: "\<forall>r\<in>set refs. length (heap s) < r" using refs(1) hp1 by auto
  show ?thesis
  proof (rule exI[of _ refs], intro conjI fresh)
    show "case train_combination w keys regs ex rn d lm v s of
        (Inr paths, s') \<Rightarrow>
           trace s' = trace s @ [AssignSyLocalWorker (length (heap s)),
                                  AssignGridHookLocalWorker (length (heap s))]
                        @ map WSOpen refs @ teardown_events (length (heap s)) refs
      | (Inl e, s') \<Rightarrow>
           trace s' = trace s @ [AssignSyLocalWorker (length (heap s)),
                                  AssignGridHookLocalWorker (length (heap s))]
                        @ map WSOpen refs"
    proof (cases res)
      case (Inl e)
      then show ?thesis using ttp cw refs(2) tr1
        by (simp add: train_combination_def)
    next
      case (Inr ws)
      then have ws: "ws = refs" using refs(3) by simp
      show ?thesis using ttp cw refs(2) tr1 Inr ws
        by (simp add: train_combination_def load_selected_experiment_def load_selected_run_def
              terminate_connections_eq teardown_events_def Let_def
            split: option.split sum.split)
    qed
  qed
qed

section \<open>Facts about dictionaries and orderings\<close>

lemma map_of_dict_set: "map_of (dict_set k v d) = (map_of d)(k \<mapsto> v)"
  by (induction d) auto

lemma map_of_without: "map_of (filter (\<lambda>p. fst p \<noteq> k) d) k' = (if k' = k then None else map_of d k')"
  by (induction d) auto

lemma worker_config_fields:
  assumes "worker_config w lm v r = Inr config"
  shows "map_of config ''f_port'' = None"
    and "map_of config ''log_msgs'' = Some (PBool lm)"
    and "map_of config ''verbose'' = Some (PBool v)"
    and "k \<notin> {''f_port'', ''log_msgs'', ''verbose''} \<Longrightarrow>
           map_of config k = map_of (strip_keys w (participant r)) k"
  using assms
  by (auto simp: worker_config_def dict_pop_def Let_def map_of_dict_set map_of_without
           split: option.splits)

lemma happens_before_teardown_loop:
  "r \<in> set ws \<Longrightarrow>
   happens_before (RegistryRemove r) (Del r) (concat (map (\<lambda>r. [RegistryRemove r, Del r]) ws))"
  by (induction ws) auto

section \<open>Claims about the connection manager\<close>

text \<open>
  Claim C10. The worker configurations that \<^verbatim>\<open>connect_to_workers\<close> constructs do not
  depend on its arguments \<^verbatim>\<open>keys\<close> and \<^verbatim>\<open>dockerised\<close>. Two calls with the same registration
  records, \<^verbatim>\<open>log_msgs\<close> and \<^verbatim>\<open>verbose\<close>, whatever their \<^verbatim>\<open>keys\<close> and \<^verbatim>\<open>dockerised\<close>: from the
  same state they return the same result and leave the same state; from any two states
  they construct the same worker objects (the same configurations in the same order), and
  they raise the same exception or return the same number of handles.
\<close>

theorem connect_to_workers_ignores_keys_and_dockerised:
  "connect_to_workers w keys1 reg_records dockerised1 log_msgs verbose s =
   connect_to_workers w keys2 reg_records dockerised2 log_msgs verbose s \<and>
   constructed s1 (snd (connect_to_workers w keys1 reg_records dockerised1 log_msgs verbose s1)) =
   constructed s2 (snd (connect_to_workers w keys2 reg_records dockerised2 log_msgs verbose s2)) \<and>
   map_sum id length (fst (connect_to_workers w keys1 reg_records dockerised1 log_msgs verbose s1)) =
   map_sum id length (fst (connect_to_workers w keys2 reg_records dockerised2 log_msgs verbose s2))"
proof (cases rule: connect_loop_cases[of reg_records w log_msgs verbose])
  case ok
  show ?thesis
    by (simp add: connect_to_workers_def connect_loop_ok[OF ok] constructed_def)
next
  case (fail pre rk post e)
  show ?thesis
    unfolding connect_to_workers_def fail(1)
    by (simp add: connect_loop_fail[OF fail(2,3)] constructed_def)
qed

text \<open>
  Claim C8. \<^verbatim>\<open>connect_to_ttp\<close> returns (it never raises) a reference to a worker that was
  not on the heap before, a \<^verbatim>\<open>VirtualWorker\<close> with id \<^verbatim>\<open>'ttp'\<close>; the older objects are
  unchanged; both \<^verbatim>\<open>sy.local_worker\<close> and \<^verbatim>\<open>grid_hook.local_worker\<close> hold that same
  reference when it returns. \<^verbatim>\<open>connect_to_workers\<close>, the only operation of the module that
  runs between it and \<^verbatim>\<open>terminate_connections\<close>, leaves both references on the new
  coordinator, whether it returns or raises; \<^verbatim>\<open>terminate_connections\<close> sets both to
  \<^verbatim>\<open>REF_WORKER\<close>.
\<close>
theorem connect_to_ttp_installs_new_coordinator:
  "\<exists>ttp s'. connect_to_ttp log_msgs verbose s = (Inr ttp, s') \<and>
      ttp = length (heap s) \<and>
      heap s' = heap s @ [VirtualWorker ''ttp'' False log_msgs verbose] \<and>
      heap s' ! ttp = VirtualWorker ''ttp'' False log_msgs verbose \<and>
      sy_local_worker s' = ttp \<and> grid_hook_local_worker s' = ttp \<and>
      (\<forall>w keys regs d lm v.
         sy_local_worker (snd (connect_to_workers w keys regs d lm v s')) = ttp \<and>
         grid_hook_local_worker (snd (connect_to_workers w keys regs d lm v s')) = ttp) \<and>
      (\<forall>workers s''.
         sy_local_worker (terminate_connections ttp workers s'') = REF_WORKER \<and>
         grid_hook_local_worker (terminate_connections ttp workers s'') = REF_WORKER)"
proof -
  let ?s' = "snd (connect_to_ttp log_msgs verbose s)"
  have "connect_to_ttp log_msgs verbose s = (Inr (length (heap s)), ?s')"
    by (simp add: connect_to_ttp_eq)
  moreover have "heap ?s' = heap s @ [VirtualWorker ''ttp'' False log_msgs verbose]"
    "sy_local_worker ?s' = length (heap s)" "grid_hook_local_worker ?s' = length (heap s)"
    by (simp_all add: connect_to_ttp_eq)
  moreover have "\<forall>w keys regs d lm v.
         sy_local_worker (snd (connect_to_workers w keys regs d lm v ?s')) = length (heap s) \<and>
         grid_hook_local_worker (snd (connect_to_workers w keys regs d lm v ?s')) = length (heap s)"
    using connect_to_workers_shape[of ?s'] calculation(3,4) by metis
  moreover have "\<forall>workers s''.
         sy_local_worker (terminate_connections (length (heap s)) workers s'') = REF_WORKER \<and>
         grid_hook_local_worker (terminate_connections (length (heap s)) workers s'') = REF_WORKER"
    by (simp add: terminate_connections_eq)
  ultimately show ?thesis by (intro exI[of _ "length (heap s)"] exI[of _ ?s']) simp
qed

text \<open>
  Claim C6. Among the events of one execution of \<^verbatim>\<open>terminate_connections\<close>, the
  assignments of \<^verbatim>\<open>REF_WORKER\<close> to \<^verbatim>\<open>grid_hook.local_worker\<close> and to \<^verbatim>\<open>sy.local_worker\<close>
  come before the coordinator is removed from the registry and before it is deleted, and
  for each worker handle the removal from the registry comes before its deletion. Both
  references hold \<^verbatim>\<open>REF_WORKER\<close> when the function returns.
\<close>
theorem terminate_connections_order:
  "happens_before (AssignGridHookLocalWorker REF_WORKER) (RegistryRemove ttp)
     (session_events s (terminate_connections ttp workers s)) \<and>
   happens_before (AssignSyLocalWorker REF_WORKER) (RegistryRemove ttp)
     (session_events s (terminate_connections ttp workers s)) \<and>
   happens_before (AssignGridHookLocalWorker REF_WORKER) (Del ttp)
     (session_events s (terminate_connections ttp workers s)) \<and>
   happens_before (AssignSyLocalWorker REF_WORKER) (Del ttp)
     (session_events s (terminate_connections ttp workers s)) \<and>
   (\<forall>r\<in>set workers.
      happens_before (RegistryRemove r) (Del r)
        (session_events s (terminate_connections ttp workers s))) \<and>
   sy_local_worker (terminate_connections ttp workers s) = REF_WORKER \<and>
   grid_hook_local_worker (terminate_connections ttp workers s) = REF_WORKER"
proof -
  have ev: "session_events s (terminate_connections ttp workers s) = teardown_events ttp workers"
    by (simp add: terminate_connections_eq teardown_events_def)
  have "\<forall>r\<in>set workers. happens_before (RegistryRemove r) (Del r) (teardown_events ttp workers)"
    by (simp add: teardown_events_def happens_before_teardown_loop)
  then show ?thesis
    unfolding ev by (simp add: teardown_events_def terminate_connections_eq)
qed

text \<open>
  An instance: coordinator 1 and the worker handles 2 and 3.
\<close>

theorem terminate_connections_order_witness:
  "2 \<in> set [2, 3] \<and>
   happens_before (RegistryRemove 2) (Del 2)
     (session_events initial_state (terminate_connections 1 [2, 3] initial_state)) \<and>
   happens_before (AssignSyLocalWorker REF_WORKER) (RegistryRemove 1)
     (session_events initial_state (terminate_connections 1 [2, 3] initial_state))"
  using terminate_connections_order[of 1 initial_state "[2, 3]"] by simp

lemma handle_config_new:
  "i < length cs \<Longrightarrow>
   handle_config (s\<lparr>heap := heap s @ map (WebsocketClientWorker b) cs, trace := t\<rparr>)
     (length (heap s) + i) = Some (cs ! i)"
  by (simp add: handle_config_def nth_append)

lemma handle_config_beyond: "length (heap s) \<le> r \<Longrightarrow> handle_config s r = None"
  by (simp add: handle_config_def)

lemma open_error_None:
  "open_error w lm v r = None \<Longrightarrow> worker_config w lm v r = Inr (config_of w lm v r)"
  by (auto simp: open_error_def config_of_def split: sum.splits)

text \<open>
  Claim C7. When every registration record can be opened (its stripped payload has an
  \<^verbatim>\<open>'f_port'\<close> entry to pop and the constructor does not raise), \<^verbatim>\<open>connect_to_workers\<close>
  returns one new handle per record, in the order of the records and without merging
  records that are equal: the handles are pairwise distinct objects, and the i-th handle
  was constructed from the i-th record's participant payload after \<^verbatim>\<open>strip_keys\<close>, with no
  \<^verbatim>\<open>'f_port'\<close> entry, with \<^verbatim>\<open>'log_msgs'\<close> and \<^verbatim>\<open>'verbose'\<close> set to the arguments of the call,
  and with every other entry as in the stripped payload.
\<close>
theorem connect_to_workers_one_handle_per_record:
  assumes "\<forall>r\<in>set reg_records. open_error w log_msgs verbose r = None"
  shows "\<exists>workers s'.
     connect_to_workers w keys reg_records dockerised log_msgs verbose s = (Inr workers, s') \<and>
     length workers = length reg_records \<and> distinct workers \<and>
     (\<forall>i<length reg_records. \<exists>config.
        handle_config s (workers ! i) = None \<and>
        handle_config s' (workers ! i) = Some config \<and>
        worker_config w log_msgs verbose (reg_records ! i) = Inr config \<and>
        map_of config ''f_port'' = None \<and>
        map_of config ''log_msgs'' = Some (PBool log_msgs) \<and>
        map_of config ''verbose'' = Some (PBool verbose) \<and>
        (\<forall>k. k \<notin> {''f_port'', ''log_msgs'', ''verbose''} \<longrightarrow>
           map_of config k = map_of (strip_keys w (participant (reg_records ! i))) k))"
proof -
  let ?n = "length (heap s)"
  let ?cs = "map (config_of w log_msgs verbose) reg_records"
  let ?workers = "[?n..<?n + length reg_records]"
  let ?s' = "s\<lparr>heap := heap s @ map (WebsocketClientWorker False) ?cs,
               trace := trace s @ map WSOpen ?workers\<rparr>"
  have run: "connect_to_workers w keys reg_records dockerised log_msgs verbose s
               = (Inr ?workers, ?s')"
    using connect_loop_ok[OF assms, of "[]" s] by (simp add: connect_to_workers_def comp_def)
  have each: "\<exists>config.
        handle_config s (?workers ! i) = None \<and>
        handle_config ?s' (?workers ! i) = Some config \<and>
        worker_config w log_msgs verbose (reg_records ! i) = Inr config \<and>
        map_of config ''f_port'' = None \<and>
        map_of config ''log_msgs'' = Some (PBool log_msgs) \<and>
        map_of config ''verbose'' = Some (PBool verbose) \<and>
        (\<forall>k. k \<notin> {''f_port'', ''log_msgs'', ''verbose''} \<longrightarrow>
           map_of config k = map_of (strip_keys w (participant (reg_records ! i))) k)"
    if i: "i < length reg_records" for i
  proof -
    let ?c = "config_of w log_msgs verbose (reg_records ! i)"
    have wc: "worker_config w log_msgs verbose (reg_records ! i) = Inr ?c"
      using assms i by (simp add: open_error_None)
    have idx: "?workers ! i = ?n + i" using i by simp
    have "handle_config ?s' (?n + i) = Some (?cs ! i)"
      using i by (intro handle_config_new) simp
    then have h': "handle_config ?s' (?workers ! i) = Some ?c" using i idx by simp
    have h: "handle_config s (?workers ! i) = None"
      unfolding idx by (simp add: handle_config_beyond)
    show ?thesis
      using h h' wc worker_config_fields[OF wc] by (intro exI[of _ ?c]) blast
  qed
  show ?thesis
    using run each by (intro exI[of _ ?workers] exI[of _ ?s']) simp
qed

lemma open_error_p1: "open_error world_ok False False participant_1 = None"
  by (simp add: open_error_def worker_config_def world_ok_def participant_1_def dict_pop_def)

text \<open>
  An instance: the same participant registered twice gives two distinct handles.
\<close>

theorem connect_to_workers_one_handle_per_record_witness:
  "open_error world_ok False False participant_1 = None \<and>
   (\<exists>workers s'.
     connect_to_workers world_ok keys_A1 [participant_1, participant_1] True False False
       initial_state = (Inr workers, s') \<and>
     length workers = 2 \<and> distinct workers \<and>
     (\<exists>config. handle_config s' (workers ! 1) = Some config \<and>
        map_of config ''f_port'' = None \<and>
        map_of config ''id'' = Some (PStr ''test_participant_1'')))"
proof -
  let ?regs = "[participant_1, participant_1]"
  have h: "\<forall>r\<in>set ?regs. open_error world_ok False False r = None"
    by (simp add: open_error_p1)
  have one: "1 < length ?regs" and nth: "?regs ! 1 = participant_1" and len: "length ?regs = 2"
    by simp_all
  have sk: "map_of (strip_keys world_ok (participant participant_1)) ''id''
              = Some (PStr ''test_participant_1'')"
    by (simp add: world_ok_def participant_1_def)
  have key: "''id'' \<notin> {''f_port'', ''log_msgs'', ''verbose''}" by simp
  from connect_to_workers_one_handle_per_record[OF h, of keys_A1 True initial_state]
  have "\<exists>workers s'.
     connect_to_workers world_ok keys_A1 ?regs True False False initial_state = (Inr workers, s') \<and>
     length workers = 2 \<and> distinct workers \<and>
     (\<exists>config. handle_config s' (workers ! 1) = Some config \<and>
        map_of config ''f_port'' = None \<and>
        map_of config ''id'' = Some (PStr ''test_participant_1''))"
  proof (elim exE conjE)
    fix workers s'
    assume run: "connect_to_workers world_ok keys_A1 ?regs True False False initial_state
                   = (Inr workers, s')"
      and lw: "length workers = length ?regs" and dw: "distinct workers"
      and every: "\<forall>i<length ?regs. \<exists>config.
        handle_config initial_state (workers ! i) = None \<and>
        handle_config s' (workers ! i) = Some config \<and>
        worker_config world_ok False False (?regs ! i) = Inr config \<and>
        map_of config ''f_port'' = None \<and>
        map_of config ''log_msgs'' = Some (PBool False) \<and>
        map_of config ''verbose'' = Some (PBool False) \<and>
        (\<forall>k. k \<notin> {''f_port'', ''log_msgs'', ''verbose''} \<longrightarrow>
           map_of config k = map_of (strip_keys world_ok (participant (?regs ! i))) k)"
    from every[rule_format, OF one] obtain config where
      c1: "handle_config s' (workers ! 1) = Some config" and c2: "map_of config ''f_port'' = None"
      and rest: "\<forall>k. k \<notin> {''f_port'', ''log_msgs'', ''verbose''} \<longrightarrow>
           map_of config k = map_of (strip_keys world_ok (participant (?regs ! 1))) k"
      by (elim exE conjE)
    from rest[rule_format, OF key]
    have id: "map_of config ''id'' = Some (PStr ''test_participant_1'')"
      unfolding nth sk .
    from lw len have l2: "length workers = 2" by (rule trans)
    from c1 c2 id have "\<exists>config. handle_config s' (workers ! 1) = Some config \<and>
        map_of config ''f_port'' = None \<and>
        map_of config ''id'' = Some (PStr ''test_participant_1'')"
      by (intro exI conjI)
    with run l2 dw show ?thesis by (intro exI[of _ workers] exI[of _ s'] conjI)
  qed
  with open_error_p1 show ?thesis by (rule conjI)
qed

text \<open>
  Claim C3, as amended. If the records before the k-th can be opened and the k-th raises
  (while popping \<^verbatim>\<open>'f_port'\<close> or in the constructor), \<^verbatim>\<open>connect_to_workers\<close> raises that
  exception at once: the k-1 handles opened before it are on the heap with their
  configurations, none of them has been removed from the registry or deleted, and the
  records after the k-th are not attempted.
\<close>
theorem connect_to_workers_partial_open_no_cleanup:
  assumes "\<forall>r\<in>set pre. open_error w log_msgs verbose r = None"
      and "open_error w log_msgs verbose rk = Some e"
  shows "\<exists>s'.
     connect_to_workers w keys (pre @ rk # post) dockerised log_msgs verbose s = (Inl e, s') \<and>
     opened (session_events s s') = [length (heap s)..<length (heap s) + length pre] \<and>
     (\<forall>i<length pre.
        handle_config s' (length (heap s) + i) = Some (config_of w log_msgs verbose (pre ! i))) \<and>
     length (heap s') = length (heap s) + length pre \<and>
     registry_removed (session_events s s') = [] \<and>
     released (session_events s s') = [] \<and>
     torn_down (session_events s s') = {}"
proof -
  let ?n = "length (heap s)"
  let ?cs = "map (config_of w log_msgs verbose) pre"
  let ?s' = "s\<lparr>heap := heap s @ map (WebsocketClientWorker False) ?cs,
               trace := trace s @ map WSOpen [?n..<?n + length pre]\<rparr>"
  have run: "connect_to_workers w keys (pre @ rk # post) dockerised log_msgs verbose s
               = (Inl e, ?s')"
    using connect_loop_fail[OF assms, of post "[]" s] by (simp add: connect_to_workers_def comp_def)
  have ev: "session_events s ?s' = map WSOpen [?n..<?n + length pre]" by simp
  have cfg: "\<forall>i<length pre. handle_config ?s' (?n + i) = Some (config_of w log_msgs verbose (pre ! i))"
  proof (intro allI impI)
    fix i assume i: "i < length pre"
    have "handle_config ?s' (?n + i) = Some (?cs ! i)"
      using i by (intro handle_config_new) simp
    then show "handle_config ?s' (?n + i) = Some (config_of w log_msgs verbose (pre ! i))"
      using i by simp
  qed
  show ?thesis
    apply (rule exI[of _ ?s'])
    unfolding ev torn_down_def using run cfg by simp
qed

lemma open_error_unreachable_p1:
  "open_error world_p2_unreachable False False participant_1 = None"
  by (simp add: open_error_def worker_config_def world_p2_unreachable_def world_ok_def
        participant_1_def dict_pop_def)

lemma open_error_unreachable_p2:
  "open_error world_p2_unreachable False False participant_2 = Some ConnectionRefusedError"
  by (simp add: open_error_def worker_config_def world_p2_unreachable_def world_ok_def
        participant_2_def dict_pop_def)

text \<open>
  An instance: the first participant is reachable, the second refuses the connection.
\<close>

theorem connect_to_workers_partial_open_no_cleanup_witness:
  "open_error world_p2_unreachable False False participant_1 = None \<and>
   open_error world_p2_unreachable False False participant_2 = Some ConnectionRefusedError \<and>
   (\<exists>s'. connect_to_workers world_p2_unreachable keys_A1 [participant_1, participant_2]
            True False False initial_state = (Inl ConnectionRefusedError, s') \<and>
         opened (session_events initial_state s') = [1] \<and>
         length (heap s') = 2 \<and>
         torn_down (session_events initial_state s') = {})"
proof -
  have h: "\<forall>r\<in>set [participant_1]. open_error world_p2_unreachable False False r = None"
    by (simp add: open_error_unreachable_p1)
  have n: "length (heap initial_state) = 1" by (simp add: initial_state_def)
  from connect_to_workers_partial_open_no_cleanup[OF h open_error_unreachable_p2,
         of keys_A1 "[]" True initial_state]
  have "\<exists>s'. connect_to_workers world_p2_unreachable keys_A1 [participant_1, participant_2]
            True False False initial_state = (Inl ConnectionRefusedError, s') \<and>
         opened (session_events initial_state s') = [1] \<and>
         length (heap s') = 2 \<and>
         torn_down (session_events initial_state s') = {}"
    unfolding n by (elim exE conjE, intro exI conjI) simp_all
  with open_error_unreachable_p1 open_error_unreachable_p2 show ?thesis by (intro conjI)
qed

text \<open>
  Claim C3 as stated fails there: handle 1 was opened, the error has left the function,
  and handle 1 has not been torn down.
\<close>

theorem connect_to_workers_partial_open_counterexample:
  "fst (connect_to_workers world_p2_unreachable keys_A1 [participant_1, participant_2]
          True False False initial_state) = Inl ConnectionRefusedError \<and>
   opened (session_events initial_state
     (snd (connect_to_workers world_p2_unreachable keys_A1 [participant_1, participant_2]
             True False False initial_state))) = [1] \<and>
   1 \<notin> torn_down (session_events initial_state
     (snd (connect_to_workers world_p2_unreachable keys_A1 [participant_1, participant_2]
             True False False initial_state)))"
proof -
  have h: "\<forall>r\<in>set [participant_1]. open_error world_p2_unreachable False False r = None"
    by (simp add: open_error_unreachable_p1)
  have run: "connect_to_workers world_p2_unreachable keys_A1 [participant_1, participant_2]
          True False False initial_state =
        (Inl ConnectionRefusedError,
         initial_state\<lparr>heap := heap initial_state @
             [WebsocketClientWorker False (config_of world_p2_unreachable False False participant_1)],
           trace := trace initial_state @ [WSOpen 1]\<rparr>)"
    using connect_loop_fail[OF h open_error_unreachable_p2, of "[]" "[]" initial_state]
    by (simp add: connect_to_workers_def initial_state_def)
  show ?thesis unfolding run by (simp add: torn_down_def)
qed

section \<open>Concrete sessions\<close>

lemma governor_initialise_trace:
  "trace (governor_initialise d keys regs s) = trace s @ [GovInitialise d keys regs]"
  "heap (governor_initialise d keys regs s) = heap s"
  by (simp_all add: governor_initialise_def log_event_def)

lemma governor_terminate_trace:
  "trace (governor_terminate d keys regs s) = trace s @ [GovTerminate d keys regs]"
  "heap (governor_terminate d keys regs s) = heap s"
  by (simp_all add: governor_terminate_def log_event_def)

lemma observe_teardown_events [simp]:
  "opened (teardown_events ttp ws) = []"
  "registry_removed (teardown_events ttp ws) = ttp # ws"
  "released (teardown_events ttp ws) = ttp # ws"
  "terminate_calls (teardown_events ttp ws) = 0"
  by (simp_all add: teardown_events_def)

lemmas eval_defs =
  train_combination_def connect_to_ttp_eq connect_to_workers_def ws_client_worker_def
  worker_config_def dict_pop_def new_object_def log_event_def load_selected_experiment_def
  load_selected_run_def terminate_connections_eq governor_initialise_def governor_terminate_def
  start_expt_run_training_def initial_state_def REF_WORKER_def
  world_ok_def world_fit_raises_def world_p2_unreachable_def
  participant_1_def participant_2_def keys_A1_def expt_A_def run_of_def

lemma fit_raises_run:
  "train_combination (world_fit_raises RuntimeError) keys_A1 [participant_1, participant_2]
     expt_A (run_of ''A'' ''R1'') True False False initial_state =
   (Inl RuntimeError,
    initial_state\<lparr>heap := heap initial_state @
        [VirtualWorker ''ttp'' False False False,
         WebsocketClientWorker False
           (config_of (world_fit_raises RuntimeError) False False participant_1),
         WebsocketClientWorker False
           (config_of (world_fit_raises RuntimeError) False False participant_2)],
      sy_local_worker := 1, grid_hook_local_worker := 1,
      trace := [AssignSyLocalWorker 1, AssignGridHookLocalWorker 1, WSOpen 2, WSOpen 3]\<rparr>)"
  by (simp add: eval_defs config_of_def)

lemma start_ok_run:
  "fst (train_combination world_ok keys_A1 [participant_1, participant_2]
     expt_A (run_of ''A'' ''R1'') True False False
     (governor_initialise True keys_A1 [participant_1, participant_2] initial_state))
   = Inr [(''global'', ''outputstest_projectAR1'')]"
  by (simp add: eval_defs)

lemma start_refused_run:
  "fst (train_combination world_p2_unreachable keys_A1 [participant_1, participant_2]
     expt_A (run_of ''A'' ''R1'') True False False
     (governor_initialise True keys_A1 [participant_1, participant_2] initial_state))
   = Inl ConnectionRefusedError"
  by (simp add: eval_defs)

lemma start_fit_raises_run:
  "fst (train_combination (world_fit_raises RuntimeError) keys_A1 [participant_1, participant_2]
     expt_A (run_of ''A'' ''R1'') True False False
     (governor_initialise True keys_A1 [participant_1, participant_2] initial_state))
   = Inl RuntimeError"
  by (simp add: eval_defs)

section \<open>Claims about the session bracket\<close>

text \<open>
  Whatever the collaborators do: a session that returns has torn down the coordinator and
  exactly the handles it opened, and a session that raises has torn down nothing.
\<close>

lemma train_combination_teardown_by_result:
  "(\<forall>paths s'.
      train_combination w keys registrations experiment run dockerised log_msgs verbose s
        = (Inr paths, s') \<longrightarrow>
      set (opened (session_events s s')) \<subseteq> torn_down (session_events s s') \<and>
      torn_down (session_events s s')
        = insert (length (heap s)) (set (opened (session_events s s'))) \<and>
      length (heap s) \<notin> set (opened (session_events s s'))) \<and>
   (\<forall>e s'.
      train_combination w keys registrations experiment run dockerised log_msgs verbose s
        = (Inl e, s') \<longrightarrow>
      registry_removed (session_events s s') = [] \<and>
      released (session_events s s') = [] \<and>
      torn_down (session_events s s') = {})"
proof -
  from train_combination_shape[of s w keys registrations "experiment" run dockerised log_msgs verbose]
  obtain refs where fresh: "\<forall>r\<in>set refs. length (heap s) < r"
    and shape: "case train_combination w keys registrations experiment run dockerised
                       log_msgs verbose s of
        (Inr paths, s') \<Rightarrow>
           trace s' = trace s @ [AssignSyLocalWorker (length (heap s)),
                                  AssignGridHookLocalWorker (length (heap s))]
                        @ map WSOpen refs @ teardown_events (length (heap s)) refs
      | (Inl e, s') \<Rightarrow>
           trace s' = trace s @ [AssignSyLocalWorker (length (heap s)),
                                  AssignGridHookLocalWorker (length (heap s))]
                        @ map WSOpen refs"
    by (elim exE conjE)
  have notin: "length (heap s) \<notin> set refs" using fresh by auto
  show ?thesis
  proof (intro conjI allI impI)
    fix paths s'
    assume "train_combination w keys registrations experiment run dockerised log_msgs verbose s
              = (Inr paths, s')"
    with shape have ev: "session_events s s' =
        [AssignSyLocalWorker (length (heap s)), AssignGridHookLocalWorker (length (heap s))]
          @ map WSOpen refs @ teardown_events (length (heap s)) refs"
      by simp
    show "set (opened (session_events s s')) \<subseteq> torn_down (session_events s s')"
      unfolding ev by (auto simp: torn_down_def)
    show "torn_down (session_events s s')
        = insert (length (heap s)) (set (opened (session_events s s')))"
      unfolding ev by (auto simp: torn_down_def)
    show "length (heap s) \<notin> set (opened (session_events s s'))"
      unfolding ev using notin by simp
  next
    fix e s'
    assume "train_combination w keys registrations experiment run dockerised log_msgs verbose s
              = (Inl e, s')"
    with shape have ev: "session_events s s' =
        [AssignSyLocalWorker (length (heap s)), AssignGridHookLocalWorker (length (heap s))]
          @ map WSOpen refs"
      by simp
    show "registry_removed (session_events s s') = []" unfolding ev by simp
    show "released (session_events s s') = []" unfolding ev by simp
    show "torn_down (session_events s s') = {}" unfolding ev by (simp add: torn_down_def)
  qed
qed

text \<open>
  Statement by statement: what the session does when the handles cannot all be opened,
  and what it does, once they are open, for the first collaborator that raises.
\<close>

lemma train_combination_connect_fails:
  assumes "\<forall>r\<in>set pre. open_error w lm v r = None" and "open_error w lm v rk = Some e"
  shows "raises_without_teardown
           (train_combination w keys (pre @ rk # post) ex rn d lm v s) s e
           [Suc (length (heap s))..<Suc (length (heap s)) + length pre]"
proof -
  define s1 where "s1 = snd (connect_to_ttp lm v s)"
  have ttp: "connect_to_ttp lm v s = (Inr (length (heap s)), s1)"
    unfolding s1_def by (simp add: connect_to_ttp_eq)
  have hp: "length (heap s1) = Suc (length (heap s))"
    and tr: "trace s1 = trace s @ [AssignSyLocalWorker (length (heap s)),
                                   AssignGridHookLocalWorker (length (heap s))]"
    unfolding s1_def by (simp_all add: connect_to_ttp_eq)
  define s2 where "s2 = snd (connect_to_workers w keys (pre @ rk # post) d lm v s1)"
  have cw: "connect_to_workers w keys (pre @ rk # post) d lm v s1 = (Inl e, s2)"
    unfolding s2_def connect_to_workers_def by (simp add: connect_loop_fail[OF assms])
  have tr2: "trace s2 = trace s1 @
               map WSOpen [Suc (length (heap s))..<Suc (length (heap s)) + length pre]"
    unfolding s2_def connect_to_workers_def by (simp add: connect_loop_fail[OF assms] hp)
  have run: "train_combination w keys (pre @ rk # post) ex rn d lm v s = (Inl e, s2)"
    unfolding train_combination_def by (simp add: ttp cw)
  show ?thesis
    unfolding run raises_without_teardown_def
    by (simp add: session_events_def tr2 tr torn_down_def)
qed

lemma train_combination_connected:
  assumes "\<forall>r\<in>set regs. open_error w lm v r = None"
  shows "\<exists>s2. trace s2 = trace s @ [AssignSyLocalWorker (length (heap s)),
                                   AssignGridHookLocalWorker (length (heap s))]
                  @ map WSOpen [Suc (length (heap s))..<Suc (length (heap s)) + length regs] \<and>
     train_combination w keys regs ex rn d lm v s =
       (case model_raises w ex of
          Some e \<Rightarrow> (Inl e, s2)
        | None \<Rightarrow>
       (case arguments_raises w rn of
          Some e \<Rightarrow> (Inl e, s2)
        | None \<Rightarrow>
       (case fl_load_raises w (session_engine ex rn (length (heap s)) (length regs)) of
          Some e \<Rightarrow> (Inl e, s2)
        | None \<Rightarrow>
       (case fl_fit_raises w (session_engine ex rn (length (heap s)) (length regs)) of
          Some e \<Rightarrow> (Inl e, s2)
        | None \<Rightarrow>
       (case mkdir_raises w (res_dir_of w keys) of
          Some e \<Rightarrow> (Inl e, s2)
        | None \<Rightarrow>
       (case fl_export w (session_engine ex rn (length (heap s)) (length regs))
               (res_dir_of w keys) of
          Inl e \<Rightarrow> (Inl e, s2)
        | Inr paths \<Rightarrow>
            (Inr paths,
             terminate_connections (length (heap s))
               [Suc (length (heap s))..<Suc (length (heap s)) + length regs] s2)))))))"
proof -
  define s1 where "s1 = snd (connect_to_ttp lm v s)"
  have ttp: "connect_to_ttp lm v s = (Inr (length (heap s)), s1)"
    unfolding s1_def by (simp add: connect_to_ttp_eq)
  have hp: "length (heap s1) = Suc (length (heap s))"
    and tr: "trace s1 = trace s @ [AssignSyLocalWorker (length (heap s)),
                                   AssignGridHookLocalWorker (length (heap s))]"
    unfolding s1_def by (simp_all add: connect_to_ttp_eq)
  define s2 where "s2 = snd (connect_to_workers w keys regs d lm v s1)"
  have cw: "connect_to_workers w keys regs d lm v s1
              = (Inr [Suc (length (heap s))..<Suc (length (heap s)) + length regs], s2)"
    unfolding s2_def connect_to_workers_def by (simp add: connect_loop_ok[OF assms] hp)
  have tr2: "trace s2 = trace s @ [AssignSyLocalWorker (length (heap s)),
                                   AssignGridHookLocalWorker (length (heap s))]
                  @ map WSOpen [Suc (length (heap s))..<Suc (length (heap s)) + length regs]"
    unfolding s2_def connect_to_workers_def by (simp add: connect_loop_ok[OF assms] hp tr)
  have run: "train_combination w keys regs ex rn d lm v s =
       (case model_raises w ex of
          Some e \<Rightarrow> (Inl e, s2)
        | None \<Rightarrow>
       (case arguments_raises w rn of
          Some e \<Rightarrow> (Inl e, s2)
        | None \<Rightarrow>
       (case fl_load_raises w (session_engine ex rn (length (heap s)) (length regs)) of
          Some e \<Rightarrow> (Inl e, s2)
        | None \<Rightarrow>
       (case fl_fit_raises w (session_engine ex rn (length (heap s)) (length regs)) of
          Some e \<Rightarrow> (Inl e, s2)
        | None \<Rightarrow>
       (case mkdir_raises w (res_dir_of w keys) of
          Some e \<Rightarrow> (Inl e, s2)
        | None \<Rightarrow>
       (case fl_export w (session_engine ex rn (length (heap s)) (length regs))
               (res_dir_of w keys) of
          Inl e \<Rightarrow> (Inl e, s2)
        | Inr paths \<Rightarrow>
            (Inr paths,
             terminate_connections (length (heap s))
               [Suc (length (heap s))..<Suc (length (heap s)) + length regs] s2)))))))"
    unfolding train_combination_def
    by (simp add: ttp cw load_selected_experiment_def load_selected_run_def session_engine_def
          res_dir_of_def split: option.split sum.split)
  from tr2 run show ?thesis by blast
qed

lemma train_combination_by_statement:
  assumes "\<forall>r\<in>set regs. open_error w lm v r = None"
  shows
   "(\<forall>e. model_raises w ex = Some e \<longrightarrow>
        raises_without_teardown (train_combination w keys regs ex rn d lm v s) s e
          [Suc (length (heap s))..<Suc (length (heap s)) + length regs]) \<and>
    (model_raises w ex = None \<longrightarrow>
      (\<forall>e. arguments_raises w rn = Some e \<longrightarrow>
          raises_without_teardown (train_combination w keys regs ex rn d lm v s) s e
            [Suc (length (heap s))..<Suc (length (heap s)) + length regs]) \<and>
      (arguments_raises w rn = None \<longrightarrow>
        (\<forall>e. fl_load_raises w (session_engine ex rn (length (heap s)) (length regs)) = Some e \<longrightarrow>
            raises_without_teardown (train_combination w keys regs ex rn d lm v s) s e
              [Suc (length (heap s))..<Suc (length (heap s)) + length regs]) \<and>
        (fl_load_raises w (session_engine ex rn (length (heap s)) (length regs)) = None \<longrightarrow>
          (\<forall>e. fl_fit_raises w (session_engine ex rn (length (heap s)) (length regs)) = Some e \<longrightarrow>
              raises_without_teardown (train_combination w keys regs ex rn d lm v s) s e
                [Suc (length (heap s))..<Suc (length (heap s)) + length regs]) \<and>
          (fl_fit_raises w (session_engine ex rn (length (heap s)) (length regs)) = None \<longrightarrow>
            (\<forall>e. mkdir_raises w (res_dir_of w keys) = Some e \<longrightarrow>
                raises_without_teardown (train_combination w keys regs ex rn d lm v s) s e
                  [Suc (length (heap s))..<Suc (length (heap s)) + length regs]) \<and>
            (mkdir_raises w (res_dir_of w keys) = None \<longrightarrow>
              (\<forall>e. fl_export w (session_engine ex rn (length (heap s)) (length regs))
                     (res_dir_of w keys) = Inl e \<longrightarrow>
                  raises_without_teardown (train_combination w keys regs ex rn d lm v s) s e
                    [Suc (length (heap s))..<Suc (length (heap s)) + length regs]) \<and>
              (\<forall>paths. fl_export w (session_engine ex rn (length (heap s)) (length regs))
                     (res_dir_of w keys) = Inr paths \<longrightarrow>
                  returns_with_teardown (train_combination w keys regs ex rn d lm v s) s paths
                    (length (heap s))
                    [Suc (length (heap s))..<Suc (length (heap s)) + length regs]))))))"
proof -
  from train_combination_connected[OF assms, of s keys ex rn d]
  obtain s2 where tr2: "trace s2 = trace s @ [AssignSyLocalWorker (length (heap s)),
                                   AssignGridHookLocalWorker (length (heap s))]
                  @ map WSOpen [Suc (length (heap s))..<Suc (length (heap s)) + length regs]"
    and run: "train_combination w keys regs ex rn d lm v s =
       (case model_raises w ex of
          Some e \<Rightarrow> (Inl e, s2)
        | None \<Rightarrow>
       (case arguments_raises w rn of
          Some e \<Rightarrow> (Inl e, s2)
        | None \<Rightarrow>
       (case fl_load_raises w (session_engine ex rn (length (heap s)) (length regs)) of
          Some e \<Rightarrow> (Inl e, s2)
        | None \<Rightarrow>
       (case fl_fit_raises w (session_engine ex rn (length (heap s)) (length regs)) of
          Some e \<Rightarrow> (Inl e, s2)
        | None \<Rightarrow>
       (case mkdir_raises w (res_dir_of w keys) of
          Some e \<Rightarrow> (Inl e, s2)
        | None \<Rightarrow>
       (case fl_export w (session_engine ex rn (length (heap s)) (length regs))
               (res_dir_of w keys) of
          Inl e \<Rightarrow> (Inl e, s2)
        | Inr paths \<Rightarrow>
            (Inr paths,
             terminate_connections (length (heap s))
               [Suc (length (heap s))..<Suc (length (heap s)) + length regs] s2)))))))"
    by (elim exE conjE)
  have bad: "raises_without_teardown (Inl e, s2) s e
               [Suc (length (heap s))..<Suc (length (heap s)) + length regs]" for e
    by (simp add: raises_without_teardown_def session_events_def tr2 torn_down_def)
  have good: "returns_with_teardown
      (Inr paths, terminate_connections (length (heap s))
               [Suc (length (heap s))..<Suc (length (heap s)) + length regs] s2) s paths
      (length (heap s)) [Suc (length (heap s))..<Suc (length (heap s)) + length regs]" for paths
    by (simp add: returns_with_teardown_def session_events_def tr2 torn_down_def
          terminate_connections_eq)
  show ?thesis
    unfolding run using bad good by simp
qed

text \<open>
  Claim C2, as amended. A session (\<^verbatim>\<open>train_combination\<close>) tears its handles down only when
  it returns. If a registration record cannot be opened, the session raises that exception
  with the handles opened before it left open. If all records are opened and a loader,
  \<^verbatim>\<open>load()\<close>, \<^verbatim>\<open>fit()\<close>, \<^verbatim>\<open>mkdir\<close> or \<^verbatim>\<open>export()\<close> raises (the first of them that does), the
  session raises that exception with every handle left open: \<^verbatim>\<open>terminate_connections\<close> has
  not run, nothing has been removed from the registry, nothing deleted. If none of them
  raises, the session returns the exported paths, and the coordinator and exactly the
  handles opened have been removed from the registry and deleted. The first two parts say
  the same from the result alone, whatever the collaborators do.
\<close>

theorem train_combination_teardown_only_on_return:
  "(\<forall>paths s'.
      train_combination w keys registrations experiment run dockerised log_msgs verbose s
        = (Inr paths, s') \<longrightarrow>
      set (opened (session_events s s')) \<subseteq> torn_down (session_events s s') \<and>
      torn_down (session_events s s')
        = insert (length (heap s)) (set (opened (session_events s s'))) \<and>
      length (heap s) \<notin> set (opened (session_events s s'))) \<and>
   (\<forall>e s'.
      train_combination w keys registrations experiment run dockerised log_msgs verbose s
        = (Inl e, s') \<longrightarrow>
      registry_removed (session_events s s') = [] \<and>
      released (session_events s s') = [] \<and>
      torn_down (session_events s s') = {}) \<and>
   (\<forall>pre rk post e.
      registrations = pre @ rk # post \<and>
      (\<forall>r\<in>set pre. open_error w log_msgs verbose r = None) \<and>
      open_error w log_msgs verbose rk = Some e \<longrightarrow>
      raises_without_teardown
        (train_combination w keys registrations experiment run dockerised log_msgs verbose s)
        s e [Suc (length (heap s))..<Suc (length (heap s)) + length pre]) \<and>
   ((\<forall>r\<in>set registrations. open_error w log_msgs verbose r = None) \<longrightarrow>
    (\<forall>e. model_raises w experiment = Some e \<longrightarrow>
        raises_without_teardown
          (train_combination w keys registrations experiment run dockerised log_msgs verbose s)
          s e [Suc (length (heap s))..<Suc (length (heap s)) + length registrations]) \<and>
    (model_raises w experiment = None \<longrightarrow>
      (\<forall>e. arguments_raises w run = Some e \<longrightarrow>
          raises_without_teardown
            (train_combination w keys registrations experiment run dockerised log_msgs verbose s)
            s e [Suc (length (heap s))..<Suc (length (heap s)) + length registrations]) \<and>
      (arguments_raises w run = None \<longrightarrow>
        (\<forall>e. fl_load_raises w
               (session_engine experiment run (length (heap s)) (length registrations))
               = Some e \<longrightarrow>
            raises_without_teardown
              (train_combination w keys registrations experiment run dockerised log_msgs verbose s)
              s e [Suc (length (heap s))..<Suc (length (heap s)) + length registrations]) \<and>
        (fl_load_raises w
           (session_engine experiment run (length (heap s)) (length registrations)) = None \<longrightarrow>
          (\<forall>e. fl_fit_raises w
                 (session_engine experiment run (length (heap s)) (length registrations))
                 = Some e \<longrightarrow>
              raises_without_teardown
                (train_combination w keys registrations experiment run dockerised log_msgs
                   verbose s)
                s e [Suc (length (heap s))..<Suc (length (heap s)) + length registrations]) \<and>
          (fl_fit_raises w
             (session_engine experiment run (length (heap s)) (length registrations)) = None \<longrightarrow>
            (\<forall>e. mkdir_raises w (res_dir_of w keys) = Some e \<longrightarrow>
                raises_without_teardown
                  (train_combination w keys registrations experiment run dockerised log_msgs
                     verbose s)
                  s e [Suc (length (heap s))..<Suc (length (heap s)) + length registrations]) \<and>
            (mkdir_raises w (res_dir_of w keys) = None \<longrightarrow>
              (\<forall>e. fl_export w
                     (session_engine experiment run (length (heap s)) (length registrations))
                     (res_dir_of w keys) = Inl e \<longrightarrow>
                  raises_without_teardown
                    (train_combination w keys registrations experiment run dockerised log_msgs
                       verbose s)
                    s e [Suc (length (heap s))..<Suc (length (heap s)) + length registrations]) \<and>
              (\<forall>paths. fl_export w
                     (session_engine experiment run (length (heap s)) (length registrations))
                     (res_dir_of w keys) = Inr paths \<longrightarrow>
                  returns_with_teardown
                    (train_combination w keys registrations experiment run dockerised log_msgs
                       verbose s)
                    s paths (length (heap s))
                    [Suc (length (heap s))..<Suc (length (heap s)) + length registrations])))))))"
proof (intro conjI)
  show "\<forall>paths s'.
      train_combination w keys registrations experiment run dockerised log_msgs verbose s
        = (Inr paths, s') \<longrightarrow>
      set (opened (session_events s s')) \<subseteq> torn_down (session_events s s') \<and>
      torn_down (session_events s s')
        = insert (length (heap s)) (set (opened (session_events s s'))) \<and>
      length (heap s) \<notin> set (opened (session_events s s'))"
    by (rule train_combination_teardown_by_result[THEN conjunct1])
  show "\<forall>e s'.
      train_combination w keys registrations experiment run dockerised log_msgs verbose s
        = (Inl e, s') \<longrightarrow>
      registry_removed (session_events s s') = [] \<and>
      released (session_events s s') = [] \<and>
      torn_down (session_events s s') = {}"
    by (rule train_combination_teardown_by_result[THEN conjunct2])
  show "\<forall>pre rk post e.
      registrations = pre @ rk # post \<and>
      (\<forall>r\<in>set pre. open_error w log_msgs verbose r = None) \<and>
      open_error w log_msgs verbose rk = Some e \<longrightarrow>
      raises_without_teardown
        (train_combination w keys registrations experiment run dockerised log_msgs verbose s)
        s e [Suc (length (heap s))..<Suc (length (heap s)) + length pre]"
  proof (intro allI impI, elim conjE)
    fix pre rk post e
    assume r: "registrations = pre @ rk # post"
      and p: "\<forall>r\<in>set pre. open_error w log_msgs verbose r = None"
      and k: "open_error w log_msgs verbose rk = Some e"
    show "raises_without_teardown
        (train_combination w keys registrations experiment run dockerised log_msgs verbose s)
        s e [Suc (length (heap s))..<Suc (length (heap s)) + length pre]"
      unfolding r by (rule train_combination_connect_fails[OF p k])
  qed
qed (rule impI, rule train_combination_by_statement, assumption)

lemma session_worlds_open:
  "open_error world_ok False False participant_2 = None"
  "open_error (world_fit_raises e) False False participant_1 = None"
  "open_error (world_fit_raises e) False False participant_2 = None"
  "open_error (world_export_raises e) False False participant_1 = None"
  "open_error (world_export_raises e) False False participant_2 = None"
  "open_error (world_model_raises e) False False participant_1 = None"
  "open_error (world_model_raises e) False False participant_2 = None"
  by (simp_all add: open_error_def worker_config_def world_ok_def world_fit_raises_def
        world_export_raises_def world_model_raises_def participant_1_def participant_2_def
        dict_pop_def)

text \<open>
  Five instances with the two participants of the simulation: nothing raises; \<^verbatim>\<open>fit()\<close>
  raises; \<^verbatim>\<open>export()\<close> raises; the model loader raises; the second participant refuses
  the connection.
\<close>

theorem train_combination_teardown_only_on_return_witness:
  "returns_with_teardown
     (train_combination world_ok keys_A1 [participant_1, participant_2]
        expt_A (run_of ''A'' ''R1'') True False False initial_state)
     initial_state [(''global'', ''outputstest_projectAR1'')] 1 [2, 3] \<and>
   raises_without_teardown
     (train_combination (world_fit_raises OSError) keys_A1 [participant_1, participant_2]
        expt_A (run_of ''A'' ''R1'') True False False initial_state)
     initial_state OSError [2, 3] \<and>
   raises_without_teardown
     (train_combination (world_export_raises OSError) keys_A1 [participant_1, participant_2]
        expt_A (run_of ''A'' ''R1'') True False False initial_state)
     initial_state OSError [2, 3] \<and>
   raises_without_teardown
     (train_combination (world_model_raises (KeyError ''model'')) keys_A1
        [participant_1, participant_2] expt_A (run_of ''A'' ''R1'') True False False
        initial_state)
     initial_state (KeyError ''model'') [2, 3] \<and>
   raises_without_teardown
     (train_combination world_p2_unreachable keys_A1 [participant_1, participant_2]
        expt_A (run_of ''A'' ''R1'') True False False initial_state)
     initial_state ConnectionRefusedError [2]"
proof -
  let ?regs = "[participant_1, participant_2]"
  have n: "length (heap initial_state) = 1" by (simp add: initial_state_def)
  have two: "[Suc 1..<Suc 1 + length ?regs] = [2, 3]" and one: "[Suc 1..<Suc 1 + length [participant_1]] = [2]"
    by (simp_all add: upt_rec)
  have dir: "res_dir_of w keys_A1 = [out_dir w, ''test_project'', ''A'', ''R1'']" for w
    by (simp add: res_dir_of_def keys_A1_def)
  have a: "returns_with_teardown
     (train_combination world_ok keys_A1 ?regs expt_A (run_of ''A'' ''R1'') True False False
        initial_state)
     initial_state [(''global'', ''outputstest_projectAR1'')] 1 [2, 3]"
    using train_combination_teardown_only_on_return
            [of world_ok keys_A1 ?regs expt_A "run_of ''A'' ''R1''" True False False
                initial_state, THEN conjunct2, THEN conjunct2, THEN conjunct2]
    unfolding n two dir
    by (simp add: open_error_p1 session_worlds_open) (simp add: world_ok_def)
  have b: "raises_without_teardown
     (train_combination (world_fit_raises OSError) keys_A1 ?regs expt_A (run_of ''A'' ''R1'')
        True False False initial_state)
     initial_state OSError [2, 3]"
    using train_combination_teardown_only_on_return
            [of "world_fit_raises OSError" keys_A1 ?regs expt_A "run_of ''A'' ''R1''" True False
                False initial_state, THEN conjunct2, THEN conjunct2, THEN conjunct2]
    unfolding n two dir
    by (simp add: session_worlds_open) (simp add: world_ok_def world_fit_raises_def)
  have c: "raises_without_teardown
     (train_combination (world_export_raises OSError) keys_A1 ?regs expt_A (run_of ''A'' ''R1'')
        True False False initial_state)
     initial_state OSError [2, 3]"
    using train_combination_teardown_only_on_return
            [of "world_export_raises OSError" keys_A1 ?regs expt_A "run_of ''A'' ''R1''" True
                False False initial_state, THEN conjunct2, THEN conjunct2, THEN conjunct2]
    unfolding n two dir
    by (simp add: session_worlds_open) (simp add: world_ok_def world_export_raises_def)
  have d: "raises_without_teardown
     (train_combination (world_model_raises (KeyError ''model'')) keys_A1 ?regs expt_A
        (run_of ''A'' ''R1'') True False False initial_state)
     initial_state (KeyError ''model'') [2, 3]"
    using train_combination_teardown_only_on_return
            [of "world_model_raises (KeyError ''model'')" keys_A1 ?regs expt_A
                "run_of ''A'' ''R1''" True False False initial_state,
             THEN conjunct2, THEN conjunct2, THEN conjunct2]
    unfolding n two dir
    by (simp add: session_worlds_open) (simp add: world_ok_def world_model_raises_def)
  have pre: "\<forall>r\<in>set [participant_1]. open_error world_p2_unreachable False False r = None"
    by (simp add: open_error_unreachable_p1)
  have split: "?regs = [participant_1] @ participant_2 # []" by simp
  have e: "raises_without_teardown
     (train_combination world_p2_unreachable keys_A1 ?regs expt_A (run_of ''A'' ''R1'')
        True False False initial_state)
     initial_state ConnectionRefusedError [2]"
    using train_combination_teardown_only_on_return
            [of world_p2_unreachable keys_A1 ?regs expt_A "run_of ''A'' ''R1''" True False False
                initial_state, THEN conjunct2, THEN conjunct2, THEN conjunct1,
             THEN spec, THEN spec, THEN spec, THEN spec, THEN mp,
             of "[participant_1]" participant_2 "[]" ConnectionRefusedError,
             OF conjI[OF split conjI[OF pre open_error_unreachable_p2]]]
    unfolding n one .
  from a b c d e show ?thesis by (intro conjI)
qed

text \<open>
  Claim C2 as stated fails when \<^verbatim>\<open>fit()\<close> raises: handles 2 and 3 were opened and no
  handle has been torn down when the session ends.
\<close>

theorem train_combination_fit_raises_counterexample:
  "fst (train_combination (world_fit_raises RuntimeError) keys_A1 [participant_1, participant_2]
          expt_A (run_of ''A'' ''R1'') True False False initial_state) = Inl RuntimeError \<and>
   opened (session_events initial_state
     (snd (train_combination (world_fit_raises RuntimeError) keys_A1
             [participant_1, participant_2] expt_A (run_of ''A'' ''R1'') True False False
             initial_state))) = [2, 3] \<and>
   torn_down (session_events initial_state
     (snd (train_combination (world_fit_raises RuntimeError) keys_A1
             [participant_1, participant_2] expt_A (run_of ''A'' ''R1'') True False False
             initial_state))) = {}"
  unfolding fit_raises_run
  by (simp add: session_events_def initial_state_def torn_down_def)

text \<open>
  Claim C1, as amended. \<^verbatim>\<open>start_expt_run_training\<close> invokes \<^verbatim>\<open>Governor.terminate\<close> exactly
  once, as its last recorded action, when \<^verbatim>\<open>train_combination\<close> returns and when it raises
  an \<^verbatim>\<open>OSError\<close> (or a subclass). When \<^verbatim>\<open>train_combination\<close> raises any other exception,
  that exception leaves \<^verbatim>\<open>start_expt_run_training\<close> at once and \<^verbatim>\<open>terminate\<close> has not been
  invoked.
\<close>
theorem start_expt_run_training_terminate_calls:
  "(\<forall>r s1.
      train_combination w keys registrations experiment run dockerised log_msgs verbose
        (governor_initialise dockerised keys registrations s) = (Inr r, s1) \<longrightarrow>
      terminate_calls (session_events s
        (snd (start_expt_run_training w keys registrations experiment run
                dockerised log_msgs verbose s))) = 1 \<and>
      last (trace (snd (start_expt_run_training w keys registrations experiment run
                dockerised log_msgs verbose s))) = GovTerminate dockerised keys registrations) \<and>
   (\<forall>e s1.
      train_combination w keys registrations experiment run dockerised log_msgs verbose
        (governor_initialise dockerised keys registrations s) = (Inl e, s1) \<and>
      isinstance_OSError e \<longrightarrow>
      terminate_calls (session_events s
        (snd (start_expt_run_training w keys registrations experiment run
                dockerised log_msgs verbose s))) = 1 \<and>
      last (trace (snd (start_expt_run_training w keys registrations experiment run
                dockerised log_msgs verbose s))) = GovTerminate dockerised keys registrations) \<and>
   (\<forall>e s1.
      train_combination w keys registrations experiment run dockerised log_msgs verbose
        (governor_initialise dockerised keys registrations s) = (Inl e, s1) \<and>
      \<not> isinstance_OSError e \<longrightarrow>
      start_expt_run_training w keys registrations experiment run dockerised log_msgs verbose s
        = (Inl e, s1) \<and>
      terminate_calls (session_events s s1) = 0)"
proof -
  let ?s0 = "governor_initialise dockerised keys registrations s"
  let ?n = "length (heap s)"
  from train_combination_shape[of ?s0 w keys registrations "experiment" run dockerised log_msgs verbose]
  obtain refs where
    shape: "case train_combination w keys registrations experiment run dockerised
                       log_msgs verbose ?s0 of
        (Inr paths, s') \<Rightarrow>
           trace s' = trace ?s0 @ [AssignSyLocalWorker (length (heap ?s0)),
                                  AssignGridHookLocalWorker (length (heap ?s0))]
                        @ map WSOpen refs @ teardown_events (length (heap ?s0)) refs
      | (Inl e, s') \<Rightarrow>
           trace s' = trace ?s0 @ [AssignSyLocalWorker (length (heap ?s0)),
                                  AssignGridHookLocalWorker (length (heap ?s0))]
                        @ map WSOpen refs"
    by (elim exE conjE)
  show ?thesis
  proof (intro conjI allI impI; (elim conjE)?)
    fix r s1
    assume tc: "train_combination w keys registrations experiment run dockerised log_msgs verbose
                  ?s0 = (Inr r, s1)"
    then have run: "start_expt_run_training w keys registrations experiment run
                dockerised log_msgs verbose s = (Inr r, governor_terminate dockerised keys registrations s1)"
      by (simp add: start_expt_run_training_def)
    from shape tc have tr: "trace s1 = trace s @ GovInitialise dockerised keys registrations #
        [AssignSyLocalWorker ?n, AssignGridHookLocalWorker ?n]
          @ map WSOpen refs @ teardown_events ?n refs"
      by (simp add: governor_initialise_trace)
    show "terminate_calls (session_events s
        (snd (start_expt_run_training w keys registrations experiment run
                dockerised log_msgs verbose s))) = 1"
      unfolding run by (simp add: governor_terminate_trace tr session_events_def)
    show "last (trace (snd (start_expt_run_training w keys registrations experiment run
                dockerised log_msgs verbose s))) = GovTerminate dockerised keys registrations"
      unfolding run by (simp add: governor_terminate_trace)
  next
    fix e s1
    assume tc: "train_combination w keys registrations experiment run dockerised log_msgs verbose
                  ?s0 = (Inl e, s1)" and os: "isinstance_OSError e"
    then have run: "start_expt_run_training w keys registrations experiment run
                dockerised log_msgs verbose s
          = (Inl (UnboundLocalError ''results''), governor_terminate dockerised keys registrations s1)"
      by (simp add: start_expt_run_training_def)
    from shape tc have tr: "trace s1 = trace s @ GovInitialise dockerised keys registrations #
        [AssignSyLocalWorker ?n, AssignGridHookLocalWorker ?n] @ map WSOpen refs"
      by (simp add: governor_initialise_trace)
    show "terminate_calls (session_events s
        (snd (start_expt_run_training w keys registrations experiment run
                dockerised log_msgs verbose s))) = 1"
      unfolding run by (simp add: governor_terminate_trace tr session_events_def)
    show "last (trace (snd (start_expt_run_training w keys registrations experiment run
                dockerised log_msgs verbose s))) = GovTerminate dockerised keys registrations"
      unfolding run by (simp add: governor_terminate_trace)
  next
    fix e s1
    assume tc: "train_combination w keys registrations experiment run dockerised log_msgs verbose
                  ?s0 = (Inl e, s1)" and os: "\<not> isinstance_OSError e"
    then show "start_expt_run_training w keys registrations experiment run
                dockerised log_msgs verbose s = (Inl e, s1)"
      by (simp add: start_expt_run_training_def)
    from shape tc have tr: "trace s1 = trace s @ GovInitialise dockerised keys registrations #
        [AssignSyLocalWorker ?n, AssignGridHookLocalWorker ?n] @ map WSOpen refs"
      by (simp add: governor_initialise_trace)
    show "terminate_calls (session_events s s1) = 0"
      by (simp add: tr session_events_def)
  qed
qed

text \<open>
  Three instances: nothing raises; the second participant refuses the connection (an
  \<^verbatim>\<open>OSError\<close>); \<^verbatim>\<open>fit()\<close> raises \<^verbatim>\<open>RuntimeError\<close>.
\<close>

theorem start_expt_run_training_terminate_calls_witness:
  "terminate_calls (session_events initial_state
     (snd (start_expt_run_training world_ok keys_A1 [participant_1, participant_2]
             expt_A (run_of ''A'' ''R1'') True False False initial_state))) = 1 \<and>
   isinstance_OSError ConnectionRefusedError \<and>
   terminate_calls (session_events initial_state
     (snd (start_expt_run_training world_p2_unreachable keys_A1 [participant_1, participant_2]
             expt_A (run_of ''A'' ''R1'') True False False initial_state))) = 1 \<and>
   \<not> isinstance_OSError RuntimeError \<and>
   fst (start_expt_run_training (world_fit_raises RuntimeError) keys_A1
          [participant_1, participant_2] expt_A (run_of ''A'' ''R1'') True False False
          initial_state) = Inl RuntimeError"
proof -
  let ?regs = "[participant_1, participant_2]"
  let ?s0 = "governor_initialise True keys_A1 ?regs initial_state"
  let ?tc = "\<lambda>w. train_combination w keys_A1 ?regs expt_A (run_of ''A'' ''R1'')
                    True False False ?s0"
  have a: "?tc world_ok = (Inr [(''global'', ''outputstest_projectAR1'')], snd (?tc world_ok))"
    using start_ok_run by (simp add: prod_eq_iff)
  have b: "?tc world_p2_unreachable = (Inl ConnectionRefusedError, snd (?tc world_p2_unreachable))"
    using start_refused_run by (simp add: prod_eq_iff)
  have c: "?tc (world_fit_raises RuntimeError)
             = (Inl RuntimeError, snd (?tc (world_fit_raises RuntimeError)))"
    using start_fit_raises_run by (simp add: prod_eq_iff)
  have os: "isinstance_OSError ConnectionRefusedError" and nos: "\<not> isinstance_OSError RuntimeError"
    by simp_all
  note t1 = start_expt_run_training_terminate_calls
    [of world_ok keys_A1 ?regs expt_A "run_of ''A'' ''R1''" True False False initial_state]
  note t2 = start_expt_run_training_terminate_calls
    [of world_p2_unreachable keys_A1 ?regs expt_A "run_of ''A'' ''R1''" True False False
        initial_state]
  note t3 = start_expt_run_training_terminate_calls
    [of "world_fit_raises RuntimeError" keys_A1 ?regs expt_A "run_of ''A'' ''R1''" True False
        False initial_state]
  from t1 a have r1: "terminate_calls (session_events initial_state
     (snd (start_expt_run_training world_ok keys_A1 ?regs
             expt_A (run_of ''A'' ''R1'') True False False initial_state))) = 1"
    by blast
  from t2 b os have r2: "terminate_calls (session_events initial_state
     (snd (start_expt_run_training world_p2_unreachable keys_A1 ?regs
             expt_A (run_of ''A'' ''R1'') True False False initial_state))) = 1"
    by blast
  from t3 c nos have "start_expt_run_training (world_fit_raises RuntimeError) keys_A1
          ?regs expt_A (run_of ''A'' ''R1'') True False False initial_state
        = (Inl RuntimeError, snd (?tc (world_fit_raises RuntimeError)))"
    by blast
  then have r3: "fst (start_expt_run_training (world_fit_raises RuntimeError) keys_A1
          ?regs expt_A (run_of ''A'' ''R1'') True False False initial_state) = Inl RuntimeError"
    by simp
  from r1 os r2 nos r3 show ?thesis by (intro conjI)
qed

text \<open>
  Claim C1 as stated fails when \<^verbatim>\<open>fit()\<close> raises \<^verbatim>\<open>RuntimeError\<close>: the exception leaves
  \<^verbatim>\<open>start_expt_run_training\<close> and the trace holds no call of \<^verbatim>\<open>terminate\<close>.
\<close>

theorem start_expt_run_training_no_terminate_counterexample:
  "fst (start_expt_run_training (world_fit_raises RuntimeError) keys_A1
          [participant_1, participant_2] expt_A (run_of ''A'' ''R1'') True False False
          initial_state) = Inl RuntimeError \<and>
   terminate_calls (trace
     (snd (start_expt_run_training (world_fit_raises RuntimeError) keys_A1
             [participant_1, participant_2] expt_A (run_of ''A'' ''R1'') True False False
             initial_state))) = 0"
  by (simp add: eval_defs)

text \<open>
  Claim C9. If \<^verbatim>\<open>train_combination\<close> raises an \<^verbatim>\<open>OSError\<close>, \<^verbatim>\<open>start_expt_run_training\<close>
  catches it, invokes \<^verbatim>\<open>Governor.terminate\<close> on the state the session left, and then
  raises \<^verbatim>\<open>UnboundLocalError\<close> for \<^verbatim>\<open>results\<close>, which is a \<^verbatim>\<open>NameError\<close>: the caller gets
  that exception and no result.
\<close>
theorem start_expt_run_training_oserror_unbound_results:
  assumes "fst (train_combination w keys registrations experiment run dockerised log_msgs verbose
                  (governor_initialise dockerised keys registrations s)) = Inl e"
      and "isinstance_OSError e"
  shows "start_expt_run_training w keys registrations experiment run dockerised log_msgs verbose s
           = (Inl (UnboundLocalError ''results''),
              governor_terminate dockerised keys registrations
                (snd (train_combination w keys registrations experiment run dockerised
                        log_msgs verbose (governor_initialise dockerised keys registrations s)))) \<and>
         isinstance_NameError (UnboundLocalError ''results'') \<and>
         trace (snd (start_expt_run_training w keys registrations experiment run dockerised
                       log_msgs verbose s))
           = trace (snd (train_combination w keys registrations experiment run dockerised
                        log_msgs verbose (governor_initialise dockerised keys registrations s)))
             @ [GovTerminate dockerised keys registrations]"
proof -
  obtain res s1 where tc: "train_combination w keys registrations experiment run dockerised
       log_msgs verbose (governor_initialise dockerised keys registrations s) = (res, s1)"
    by (cases "train_combination w keys registrations experiment run dockerised
       log_msgs verbose (governor_initialise dockerised keys registrations s)")
  with assms have res: "res = Inl e" by simp
  show ?thesis
    using assms(2) by (simp add: start_expt_run_training_def tc res governor_terminate_trace)
qed

text \<open>
  An instance: the second participant refuses the connection.
\<close>

theorem start_expt_run_training_oserror_unbound_results_witness:
  "isinstance_OSError ConnectionRefusedError \<and>
   fst (train_combination world_p2_unreachable keys_A1 [participant_1, participant_2]
          expt_A (run_of ''A'' ''R1'') True False False
          (governor_initialise True keys_A1 [participant_1, participant_2] initial_state))
     = Inl ConnectionRefusedError \<and>
   fst (start_expt_run_training world_p2_unreachable keys_A1 [participant_1, participant_2]
          expt_A (run_of ''A'' ''R1'') True False False initial_state)
     = Inl (UnboundLocalError ''results'') \<and>
   last (trace (snd (start_expt_run_training world_p2_unreachable keys_A1
          [participant_1, participant_2] expt_A (run_of ''A'' ''R1'') True False False
          initial_state)))
     = GovTerminate True keys_A1 [participant_1, participant_2]"
proof -
  have os: "isinstance_OSError ConnectionRefusedError" by simp
  note t = start_expt_run_training_oserror_unbound_results[OF start_refused_run os]
  from t have r: "fst (start_expt_run_training world_p2_unreachable keys_A1
          [participant_1, participant_2] expt_A (run_of ''A'' ''R1'') True False False
          initial_state) = Inl (UnboundLocalError ''results'')"
    by simp
  from t[THEN conjunct2, THEN conjunct2] have l: "last (trace (snd (start_expt_run_training world_p2_unreachable keys_A1
          [participant_1, participant_2] expt_A (run_of ''A'' ''R1'') True False False
          initial_state))) = GovTerminate True keys_A1 [participant_1, participant_2]"
    by simp
  from os start_refused_run r l show ?thesis by (intro conjI)
qed

section \<open>Facts about the join\<close>

lemma dict_set_fresh: "k \<notin> fst ` set d \<Longrightarrow> dict_set k v d = d @ [(k, v)]"
  by (induction d) auto

lemma dict_set_keys: "fst ` set (dict_set k v d) = insert k (fst ` set d)"
  by (induction d) auto

lemma dict_set_entries: "set (dict_set k v d) \<subseteq> insert (k, v) (set d)"
  by (induction d) auto

lemma dict_set_distinct: "distinct (map fst d) \<Longrightarrow> distinct (map fst (dict_set k v d))"
  by (induction d) (auto simp: dict_set_keys)

lemma matching_pairs_Nil [simp]: "matching_pairs [] rs = []"
  by (simp add: matching_pairs_def)

lemma matching_pairs_Cons:
  "matching_pairs (e # es) rs =
     map (Pair e) (filter (\<lambda>r. expt_id (r_key r) = e_expt_id (e_key e)) rs) @ matching_pairs es rs"
proof -
  have "concat (map (\<lambda>r. if expt_id (r_key r) = e_expt_id (e_key e) then [(e, r)] else []) rs)
          = map (Pair e) (filter (\<lambda>r. expt_id (r_key r) = e_expt_id (e_key e)) rs)"
    by (induction rs) simp_all
  then show ?thesis by (simp add: matching_pairs_def)
qed

lemma run_step_eq:
  "run_step kw e r tc =
     (if expt_id (r_key r) = e_expt_id (e_key e)
      then dict_set (combination_key_of r) (params_of kw e r) tc else tc)"
  by (simp add: run_step_def combination_key_of_def params_of_def Let_def)

lemma fold_run_step_fresh:
  "distinct (map combination_key_of (filter (\<lambda>r. expt_id (r_key r) = e_expt_id (e_key e)) rs)) \<Longrightarrow>
   combination_key_of ` set (filter (\<lambda>r. expt_id (r_key r) = e_expt_id (e_key e)) rs)
     \<inter> fst ` set tc = {} \<Longrightarrow>
   fold (run_step kw e) rs tc =
     tc @ map (\<lambda>r. (combination_key_of r, params_of kw e r))
            (filter (\<lambda>r. expt_id (r_key r) = e_expt_id (e_key e)) rs)"
proof (induction rs arbitrary: tc)
  case Nil
  then show ?case by simp
next
  case (Cons r rs)
  show ?case
  proof (cases "expt_id (r_key r) = e_expt_id (e_key e)")
    case True
    from Cons.prems True have fresh: "combination_key_of r \<notin> fst ` set tc" by auto
    have step: "run_step kw e r tc = tc @ [(combination_key_of r, params_of kw e r)]"
      using True fresh by (simp add: run_step_eq dict_set_fresh)
    have "fold (run_step kw e) rs (tc @ [(combination_key_of r, params_of kw e r)]) =
        (tc @ [(combination_key_of r, params_of kw e r)]) @
        map (\<lambda>r. (combination_key_of r, params_of kw e r))
            (filter (\<lambda>r. expt_id (r_key r) = e_expt_id (e_key e)) rs)"
      using Cons.prems True by (intro Cons.IH) auto
    then show ?thesis using True step by simp
  next
    case False
    then show ?thesis using Cons by (simp add: run_step_eq)
  qed
qed

lemma fold_experiments_fresh:
  "distinct (map (combination_key_of \<circ> snd) (matching_pairs es rs)) \<Longrightarrow>
   (combination_key_of \<circ> snd) ` set (matching_pairs es rs) \<inter> fst ` set tc = {} \<Longrightarrow>
   fold (\<lambda>e. fold (run_step kw e) rs) es tc =
     tc @ map (\<lambda>(e, r). (combination_key_of r, params_of kw e r)) (matching_pairs es rs)"
proof (induction es arbitrary: tc)
  case Nil
  then show ?case by simp
next
  case (Cons e es)
  let ?m = "filter (\<lambda>r. expt_id (r_key r) = e_expt_id (e_key e)) rs"
  let ?tc = "tc @ map (\<lambda>r. (combination_key_of r, params_of kw e r)) ?m"
  have d1: "distinct (map combination_key_of ?m)"
    and d2: "distinct (map (combination_key_of \<circ> snd) (matching_pairs es rs))"
    and d3: "combination_key_of ` set ?m
               \<inter> (combination_key_of \<circ> snd) ` set (matching_pairs es rs) = {}"
    using Cons.prems(1) by (auto simp: matching_pairs_Cons comp_def image_image)
  have f1: "combination_key_of ` set ?m \<inter> fst ` set tc = {}"
    and f2: "(combination_key_of \<circ> snd) ` set (matching_pairs es rs) \<inter> fst ` set tc = {}"
    using Cons.prems(2) by (auto simp: matching_pairs_Cons image_Un image_image)
  have inner: "fold (run_step kw e) rs tc = ?tc"
    using d1 f1 by (rule fold_run_step_fresh)
  have f3: "(combination_key_of \<circ> snd) ` set (matching_pairs es rs) \<inter> fst ` set ?tc = {}"
    using f2 d3 by (auto simp: image_Un image_image)
  show ?case
    using Cons.IH[OF d2 f3] inner by (simp add: matching_pairs_Cons comp_def)
qed

lemma fold_run_step_entries:
  "set (fold (run_step kw e) rs tc) \<subseteq>
     set tc \<union> (\<lambda>r. (combination_key_of r, params_of kw e r)) `
                 set (filter (\<lambda>r. expt_id (r_key r) = e_expt_id (e_key e)) rs)"
proof (induction rs arbitrary: tc)
  case Nil
  then show ?case by simp
next
  case (Cons r rs)
  have "set (run_step kw e r tc) \<subseteq>
     set tc \<union> (\<lambda>r. (combination_key_of r, params_of kw e r)) `
                 set (filter (\<lambda>r. expt_id (r_key r) = e_expt_id (e_key e)) [r])"
    using dict_set_entries[of "combination_key_of r" "params_of kw e r" tc]
    by (auto simp: run_step_eq)
  with Cons.IH[of "run_step kw e r tc"] show ?case by auto
qed

lemma fold_run_step_keys:
  "fst ` set (fold (run_step kw e) rs tc) =
     fst ` set tc \<union> combination_key_of `
                 set (filter (\<lambda>r. expt_id (r_key r) = e_expt_id (e_key e)) rs)"
  by (induction rs arbitrary: tc) (auto simp: run_step_eq dict_set_keys)

lemma fold_run_step_distinct:
  "distinct (map fst tc) \<Longrightarrow> distinct (map fst (fold (run_step kw e) rs tc))"
  by (induction rs arbitrary: tc) (auto simp: run_step_eq dict_set_distinct)

lemma fold_experiments_entries:
  "set (fold (\<lambda>e. fold (run_step kw e) rs) es tc) \<subseteq>
     set tc \<union> (\<lambda>(e, r). (combination_key_of r, params_of kw e r)) ` set (matching_pairs es rs)"
proof (induction es arbitrary: tc)
  case Nil
  then show ?case by simp
next
  case (Cons e es)
  have img: "(\<lambda>(e, r). (combination_key_of r, params_of kw e r)) `
               set (map (Pair e) (filter (\<lambda>r. expt_id (r_key r) = e_expt_id (e_key e)) rs))
             = (\<lambda>r. (combination_key_of r, params_of kw e r)) `
               set (filter (\<lambda>r. expt_id (r_key r) = e_expt_id (e_key e)) rs)"
    by (simp add: image_image)
  have "set (fold (\<lambda>e. fold (run_step kw e) rs) (e # es) tc) \<subseteq>
          (set tc \<union> (\<lambda>r. (combination_key_of r, params_of kw e r)) `
               set (filter (\<lambda>r. expt_id (r_key r) = e_expt_id (e_key e)) rs))
          \<union> (\<lambda>(e, r). (combination_key_of r, params_of kw e r)) ` set (matching_pairs es rs)"
    using Cons.IH[of "fold (run_step kw e) rs tc"] fold_run_step_entries[of kw e rs tc]
    by auto
  then show ?case
    unfolding matching_pairs_Cons set_append image_Un img by blast
qed

lemma fold_experiments_keys:
  "fst ` set (fold (\<lambda>e. fold (run_step kw e) rs) es tc) =
     fst ` set tc \<union> (combination_key_of \<circ> snd) ` set (matching_pairs es rs)"
proof (induction es arbitrary: tc)
  case Nil
  then show ?case by simp
next
  case (Cons e es)
  show ?case
    unfolding fold_Cons comp_apply Cons.IH fold_run_step_keys
    by (auto simp: matching_pairs_Cons image_Un image_image)
qed

lemma fold_experiments_distinct:
  "distinct (map fst tc) \<Longrightarrow> distinct (map fst (fold (\<lambda>e. fold (run_step kw e) rs) es tc))"
  by (induction es arbitrary: tc) (auto simp: fold_run_step_distinct)

section \<open>Claims about the scheduler\<close>

text \<open>
  Claim C5, as amended. The dictionary \<^verbatim>\<open>training_combinations\<close> that \<^verbatim>\<open>start_proc\<close>
  builds holds only entries of (experiment, run) pairs whose experiment ids match, each
  under the run's (project_id, expt_id, run_id) and with the run's key, the experiment and
  the run as parameters; its keys are exactly the keys of the matching pairs, one entry
  per key. When no two matching pairs have the same key, it holds exactly one entry per
  matching pair, in the order of the loops. (Matching pairs with the same key share one
  entry.)
\<close>
theorem training_combinations_inner_join:
  "set (training_combinations kw) \<subseteq>
     (\<lambda>(e, r). (combination_key_of r, params_of kw e r)) `
       set (matching_pairs (kw_experiments kw) (kw_runs kw)) \<and>
   fst ` set (training_combinations kw) =
     (combination_key_of \<circ> snd) ` set (matching_pairs (kw_experiments kw) (kw_runs kw)) \<and>
   distinct (map fst (training_combinations kw)) \<and>
   (distinct (map (combination_key_of \<circ> snd) (matching_pairs (kw_experiments kw) (kw_runs kw)))
      \<longrightarrow>
    training_combinations kw =
      map (\<lambda>(e, r). (combination_key_of r, params_of kw e r))
        (matching_pairs (kw_experiments kw) (kw_runs kw)))"
proof (intro conjI impI)
  show "set (training_combinations kw) \<subseteq>
     (\<lambda>(e, r). (combination_key_of r, params_of kw e r)) `
       set (matching_pairs (kw_experiments kw) (kw_runs kw))"
    using fold_experiments_entries[of kw "kw_runs kw" "kw_experiments kw" "[]"]
    by (simp add: training_combinations_def)
  show "fst ` set (training_combinations kw) =
     (combination_key_of \<circ> snd) ` set (matching_pairs (kw_experiments kw) (kw_runs kw))"
    by (simp add: training_combinations_def fold_experiments_keys)
  show "distinct (map fst (training_combinations kw))"
    by (simp add: training_combinations_def fold_experiments_distinct)
next
  assume "distinct (map (combination_key_of \<circ> snd)
            (matching_pairs (kw_experiments kw) (kw_runs kw)))"
  then show "training_combinations kw =
      map (\<lambda>(e, r). (combination_key_of r, params_of kw e r))
        (matching_pairs (kw_experiments kw) (kw_runs kw))"
    using fold_experiments_fresh[of "kw_experiments kw" "kw_runs kw" "[]" kw]
    by (simp add: training_combinations_def)
qed

text \<open>
  The example of the specification: experiments A and B, runs R1 of A, R2 and R3 of B.
\<close>

lemma example_pairs:
  "matching_pairs [expt_A, expt_B] [run_of ''A'' ''R1'', run_of ''B'' ''R2'', run_of ''B'' ''R3'']
     = [(expt_A, run_of ''A'' ''R1''), (expt_B, run_of ''B'' ''R2''), (expt_B, run_of ''B'' ''R3'')]"
  by (simp add: matching_pairs_def expt_A_def expt_B_def run_of_def)

theorem training_combinations_inner_join_witness:
  "distinct (map (combination_key_of \<circ> snd)
     (matching_pairs [expt_A, expt_B]
        [run_of ''A'' ''R1'', run_of ''B'' ''R2'', run_of ''B'' ''R3''])) \<and>
   map fst (training_combinations
     (kwargs_of [expt_A, expt_B] [run_of ''A'' ''R1'', run_of ''B'' ''R2'', run_of ''B'' ''R3'']
        [participant_1, participant_2]))
     = [(''test_project'', ''A'', ''R1''), (''test_project'', ''B'', ''R2''),
        (''test_project'', ''B'', ''R3'')] \<and>
   map (\<lambda>(k, p). (p_experiment p, p_run p)) (training_combinations
     (kwargs_of [expt_A, expt_B] [run_of ''A'' ''R1'', run_of ''B'' ''R2'', run_of ''B'' ''R3'']
        [participant_1, participant_2]))
     = [(expt_A, run_of ''A'' ''R1''), (expt_B, run_of ''B'' ''R2''), (expt_B, run_of ''B'' ''R3'')] \<and>
   length (training_combinations
     (kwargs_of [expt_A, expt_B] [run_of ''A'' ''R1'', run_of ''B'' ''R2'', run_of ''B'' ''R3'']
        [participant_1, participant_2])) = 3"
proof -
  let ?es = "[expt_A, expt_B]"
  let ?rs = "[run_of ''A'' ''R1'', run_of ''B'' ''R2'', run_of ''B'' ''R3'']"
  let ?kw = "kwargs_of ?es ?rs [participant_1, participant_2]"
  have es: "kw_experiments ?kw = ?es" and rs: "kw_runs ?kw = ?rs"
    by (simp_all add: kwargs_of_def)
  have d: "distinct (map (combination_key_of \<circ> snd) (matching_pairs ?es ?rs))"
    unfolding example_pairs by (simp add: combination_key_of_def run_of_def)
  from training_combinations_inner_join[of ?kw] d
  have eq: "training_combinations ?kw =
      map (\<lambda>(e, r). (combination_key_of r, params_of ?kw e r)) (matching_pairs ?es ?rs)"
    unfolding es rs by blast
  have k: "map fst (training_combinations ?kw)
     = [(''test_project'', ''A'', ''R1''), (''test_project'', ''B'', ''R2''),
        (''test_project'', ''B'', ''R3'')]"
    unfolding eq example_pairs by (simp add: combination_key_of_def run_of_def)
  have p: "map (\<lambda>(k, p). (p_experiment p, p_run p)) (training_combinations ?kw)
     = [(expt_A, run_of ''A'' ''R1''), (expt_B, run_of ''B'' ''R2''), (expt_B, run_of ''B'' ''R3'')]"
    unfolding eq example_pairs by (simp add: params_of_def)
  have l: "length (training_combinations ?kw) = 3"
    unfolding eq example_pairs by simp
  from d k p l show ?thesis by (intro conjI)
qed

text \<open>
  Claim C5 as stated fails for two experiment records with the same \<^verbatim>\<open>expt_id\<close> (here of
  two projects) and one run of that id: two pairs match, one combination is scheduled, and
  it carries the experiment that came last.
\<close>

theorem training_combinations_shared_key_counterexample:
  "length (matching_pairs [expt_A, expt_A_elsewhere] [run_of ''A'' ''R1'']) = 2 \<and>
   length (training_combinations
     (kwargs_of [expt_A, expt_A_elsewhere] [run_of ''A'' ''R1''] [participant_1, participant_2]))
     = 1 \<and>
   map (\<lambda>(k, p). (k, p_experiment p)) (training_combinations
     (kwargs_of [expt_A, expt_A_elsewhere] [run_of ''A'' ''R1''] [participant_1, participant_2]))
     = [((''test_project'', ''A'', ''R1''), expt_A_elsewhere)]"
  by (simp add: matching_pairs_def training_combinations_def run_step_def kwargs_of_def
        expt_A_def expt_A_elsewhere_def run_of_def Let_def)

section \<open>Facts about the scheduling run\<close>

lemma train_combination_returns:
  assumes "session_returns w p"
  shows "\<exists>paths s'. train_combination w (p_keys p) (p_registrations p) (p_experiment p) (p_run p)
            (p_dockerised p) (p_log_msgs p) (p_verbose p) s = (Inr paths, s')"
proof -
  define s1 where "s1 = snd (connect_to_ttp (p_log_msgs p) (p_verbose p) s)"
  define ws where "ws = [length (heap s1)..<length (heap s1) + length (p_registrations p)]"
  let ?fl = "\<lparr>fl_args = p_run p, fl_ttp = length (heap s), fl_workers = ws,
              fl_model = p_experiment p\<rparr>"
  let ?dir = "[out_dir w, project_id (p_keys p), expt_id (p_keys p), run_id (p_keys p)]"
  have regs: "\<forall>r\<in>set (p_registrations p). open_error w (p_log_msgs p) (p_verbose p) r = None"
    using assms by (simp add: session_returns_def list_all_iff)
  have ttp: "connect_to_ttp (p_log_msgs p) (p_verbose p) s = (Inr (length (heap s)), s1)"
    unfolding s1_def by (simp add: connect_to_ttp_eq)
  obtain s2 where cw: "connect_to_workers w (p_keys p) (p_registrations p) (p_dockerised p)
            (p_log_msgs p) (p_verbose p) s1 = (Inr ws, s2)"
    unfolding ws_def using connect_loop_ok[OF regs, of "[]" s1]
    by (simp add: connect_to_workers_def)
  have m: "model_raises w (p_experiment p) = None" and a: "arguments_raises w (p_run p) = None"
    and md: "mkdir_raises w ?dir = None"
    and l: "fl_load_raises w ?fl = None" and f: "fl_fit_raises w ?fl = None"
    using assms by (simp_all add: session_returns_def)
  from assms obtain paths where e: "fl_export w ?fl ?dir = Inr paths"
    unfolding session_returns_def by blast
  have "train_combination w (p_keys p) (p_registrations p) (p_experiment p) (p_run p)
            (p_dockerised p) (p_log_msgs p) (p_verbose p) s
          = (Inr paths, terminate_connections (length (heap s)) ws s2)"
    unfolding train_combination_def
    by (simp add: ttp cw m a md l f e load_selected_experiment_def load_selected_run_def)
  then show ?thesis by blast
qed

lemma start_expt_run_training_returns:
  assumes "session_returns w p"
  shows "\<exists>paths s'. start_expt_run_training w (p_keys p) (p_registrations p) (p_experiment p)
            (p_run p) (p_dockerised p) (p_log_msgs p) (p_verbose p) s = (Inr paths, s')"
proof -
  from train_combination_returns[OF assms,
         of "governor_initialise (p_dockerised p) (p_keys p) (p_registrations p) s"]
  obtain paths s1 where "train_combination w (p_keys p) (p_registrations p) (p_experiment p)
      (p_run p) (p_dockerised p) (p_log_msgs p) (p_verbose p)
      (governor_initialise (p_dockerised p) (p_keys p) (p_registrations p) s) = (Inr paths, s1)"
    by blast
  then show ?thesis by (simp add: start_expt_run_training_def)
qed

lemma start_expt_run_training_raises:
  assumes "session_raises w p e" and "\<not> isinstance_OSError e"
  shows "\<exists>s'. start_expt_run_training w (p_keys p) (p_registrations p) (p_experiment p)
            (p_run p) (p_dockerised p) (p_log_msgs p) (p_verbose p) s = (Inl e, s')"
proof -
  let ?s0 = "governor_initialise (p_dockerised p) (p_keys p) (p_registrations p) s"
  obtain res s1 where tc: "train_combination w (p_keys p) (p_registrations p) (p_experiment p)
      (p_run p) (p_dockerised p) (p_log_msgs p) (p_verbose p) ?s0 = (res, s1)"
    by (cases "train_combination w (p_keys p) (p_registrations p) (p_experiment p)
      (p_run p) (p_dockerised p) (p_log_msgs p) (p_verbose p) ?s0")
  from assms(1) have "fst (train_combination w (p_keys p) (p_registrations p) (p_experiment p)
      (p_run p) (p_dockerised p) (p_log_msgs p) (p_verbose p) ?s0) = Inl e"
    unfolding session_raises_def by blast
  with tc have "res = Inl e" by simp
  with tc assms(2) show ?thesis by (simp add: start_expt_run_training_def)
qed

lemma completed_trainings_returns:
  "\<forall>(k, p)\<in>set combos. session_returns w p \<Longrightarrow>
   \<exists>m s'. completed_trainings w combos acc s = (Inr m, s') \<and>
          fst ` set m = fst ` set acc \<union> fst ` set combos"
proof (induction combos arbitrary: acc s)
  case Nil
  then show ?case by simp
next
  case (Cons kp combos)
  obtain k p where kp: "kp = (k, p)" by (cases kp)
  from Cons.prems kp have "session_returns w p" by simp
  from start_expt_run_training_returns[OF this, of s]
  obtain paths s1 where run: "start_expt_run_training w (p_keys p) (p_registrations p)
      (p_experiment p) (p_run p) (p_dockerised p) (p_log_msgs p) (p_verbose p) s = (Inr paths, s1)"
    by blast
  from Cons.prems have rest: "\<forall>(k, p)\<in>set combos. session_returns w p" by simp
  from Cons.IH[OF rest, of "dict_set k paths acc" s1]
  obtain m s' where "completed_trainings w combos (dict_set k paths acc) s1 = (Inr m, s')"
    "fst ` set m = fst ` set (dict_set k paths acc) \<union> fst ` set combos"
    by blast
  then show ?case using run kp by (auto simp: dict_set_keys)
qed

lemma completed_trainings_aborts:
  "\<forall>(k', p')\<in>set pre. session_returns w p' \<Longrightarrow> session_raises w p e \<Longrightarrow>
   \<not> isinstance_OSError e \<Longrightarrow>
   \<exists>s'. completed_trainings w (pre @ (k, p) # post) acc s = (Inl e, s') \<and>
        completed_trainings w (pre @ [(k, p)]) acc s = (Inl e, s')"
proof (induction pre arbitrary: acc s)
  case Nil
  from start_expt_run_training_raises[OF Nil(2,3), of s]
  obtain s' where "start_expt_run_training w (p_keys p) (p_registrations p)
      (p_experiment p) (p_run p) (p_dockerised p) (p_log_msgs p) (p_verbose p) s = (Inl e, s')"
    by blast
  then show ?case by simp
next
  case (Cons kp pre)
  obtain k1 p1 where kp: "kp = (k1, p1)" by (cases kp)
  from Cons.prems(1) kp have "session_returns w p1" by simp
  from start_expt_run_training_returns[OF this, of s]
  obtain paths s1 where run: "start_expt_run_training w (p_keys p1) (p_registrations p1)
      (p_experiment p1) (p_run p1) (p_dockerised p1) (p_log_msgs p1) (p_verbose p1) s
        = (Inr paths, s1)"
    by blast
  from Cons.prems(1) have rest: "\<forall>(k', p')\<in>set pre. session_returns w p'" by simp
  from Cons.IH[OF rest Cons.prems(2,3), of "dict_set k1 paths acc" s1]
  obtain s' where
    "completed_trainings w (pre @ (k, p) # post) (dict_set k1 paths acc) s1 = (Inl e, s')"
    "completed_trainings w (pre @ [(k, p)]) (dict_set k1 paths acc) s1 = (Inl e, s')"
    by blast
  then show ?case using run kp by simp
qed

lemma example_schedule:
  "training_combinations example_kwargs =
     [((''test_project'', ''A'', ''R1''), params_of example_kwargs expt_A (run_of ''A'' ''R1'')),
      ((''test_project'', ''B'', ''R2''), params_of example_kwargs expt_B (run_of ''B'' ''R2'')),
      ((''test_project'', ''B'', ''R3''), params_of example_kwargs expt_B (run_of ''B'' ''R3''))]"
  by (simp add: training_combinations_def run_step_def params_of_def example_kwargs_def
        kwargs_of_def expt_A_def expt_B_def run_of_def Let_def)

lemma example_registrations_open:
  "open_error world_ok False False participant_1 = None"
  "open_error world_ok False False participant_2 = None"
  "open_error world_B_fit_raises False False participant_1 = None"
  "open_error world_B_fit_raises False False participant_2 = None"
  by (simp_all add: open_error_def worker_config_def world_ok_def world_B_fit_raises_def
        participant_1_def participant_2_def dict_pop_def)

lemma example_sessions_return:
  "session_returns world_ok (params_of example_kwargs e r)"
  by (simp add: session_returns_def params_of_def example_kwargs_def kwargs_of_def
        example_registrations_open)
     (simp add: world_ok_def)

lemma example_session_A_returns:
  "session_returns world_B_fit_raises (params_of example_kwargs expt_A r)"
  by (simp add: session_returns_def params_of_def example_kwargs_def kwargs_of_def
        example_registrations_open)
     (simp add: world_ok_def world_B_fit_raises_def expt_A_def)

lemma example_session_B_raises:
  "session_raises world_B_fit_raises (params_of example_kwargs expt_B r) RuntimeError"
proof -
  have regs: "\<forall>x\<in>set [participant_1, participant_2].
                open_error world_B_fit_raises False False x = None"
    by (simp add: example_registrations_open)
  have "fst (train_combination world_B_fit_raises (r_key r) [participant_1, participant_2]
               expt_B r True False False s) = Inl RuntimeError" for s
  proof -
    define s1 where "s1 = snd (connect_to_ttp False False s)"
    have ttp: "connect_to_ttp False False s = (Inr (length (heap s)), s1)"
      unfolding s1_def by (simp add: connect_to_ttp_eq)
    obtain ws s2 where cw: "connect_to_workers world_B_fit_raises (r_key r)
        [participant_1, participant_2] True False False s1 = (Inr ws, s2)"
      using connect_loop_ok[OF regs, of "[]" s1] by (simp add: connect_to_workers_def)
    show ?thesis
      unfolding train_combination_def
      by (simp add: ttp cw load_selected_experiment_def load_selected_run_def)
         (simp add: world_B_fit_raises_def world_ok_def expt_B_def load_selected_run_def)
  qed
  then show ?thesis
    by (simp add: session_raises_def params_of_def example_kwargs_def kwargs_of_def)
qed

text \<open>
  Claim C4, as amended. When the session of every scheduled combination returns,
  \<^verbatim>\<open>start_proc\<close> returns a mapping whose keys are exactly the scheduled combination keys.
  When the sessions of the combinations before some combination return and the session
  of that combination raises an exception that is not an \<^verbatim>\<open>OSError\<close>, \<^verbatim>\<open>start_proc\<close> raises
  that exception: no mapping is returned, and the result and the final state are those of
  the schedule cut after that combination, so the combinations after it are never started.
\<close>
theorem start_proc_all_or_abort:
  "((\<forall>(k, p)\<in>set (training_combinations kw). session_returns w p) \<longrightarrow>
      (\<exists>m s'. start_proc w kw s = (Inr m, s') \<and>
               fst ` set m = fst ` set (training_combinations kw))) \<and>
   (\<forall>pre k p post e.
      training_combinations kw = pre @ (k, p) # post \<and>
      (\<forall>(k', p')\<in>set pre. session_returns w p') \<and>
      session_raises w p e \<and> \<not> isinstance_OSError e \<longrightarrow>
      fst (start_proc w kw s) = Inl e \<and>
      start_proc w kw s = completed_trainings w (pre @ [(k, p)]) [] s)"
proof (intro conjI impI allI)
  assume "\<forall>(k, p)\<in>set (training_combinations kw). session_returns w p"
  from completed_trainings_returns[OF this, of "[]" s]
  show "\<exists>m s'. start_proc w kw s = (Inr m, s') \<and>
               fst ` set m = fst ` set (training_combinations kw)"
    by (simp add: start_proc_def)
next
  fix pre k p post e
  assume h: "training_combinations kw = pre @ (k, p) # post \<and>
      (\<forall>(k', p')\<in>set pre. session_returns w p') \<and>
      session_raises w p e \<and> \<not> isinstance_OSError e"
  then have tc: "training_combinations kw = pre @ (k, p) # post"
    and h1: "\<forall>(k', p')\<in>set pre. session_returns w p'"
    and h2: "session_raises w p e" and h3: "\<not> isinstance_OSError e"
    by blast+
  from completed_trainings_aborts[OF h1 h2 h3, of k post "[]" s]
  obtain s' where a: "completed_trainings w (pre @ (k, p) # post) [] s = (Inl e, s')"
    and b: "completed_trainings w (pre @ [(k, p)]) [] s = (Inl e, s')"
    by blast
  show "fst (start_proc w kw s) = Inl e"
    by (simp add: start_proc_def tc a)
  show "start_proc w kw s = completed_trainings w (pre @ [(k, p)]) [] s"
    by (simp add: start_proc_def tc a b)
qed

text \<open>
  Two instances on the example of the specification (experiments A and B, runs R1 of A,
  R2 and R3 of B, two reachable participants): a world in which nothing raises, and one in
  which \<^verbatim>\<open>fit()\<close> raises \<^verbatim>\<open>RuntimeError\<close> for experiment B.
\<close>

theorem start_proc_all_or_abort_witness:
  "(\<exists>m s'. start_proc world_ok example_kwargs initial_state = (Inr m, s') \<and>
      fst ` set m = {(''test_project'', ''A'', ''R1''), (''test_project'', ''B'', ''R2''),
                     (''test_project'', ''B'', ''R3'')}) \<and>
   session_returns world_B_fit_raises (params_of example_kwargs expt_A (run_of ''A'' ''R1'')) \<and>
   session_raises world_B_fit_raises (params_of example_kwargs expt_B (run_of ''B'' ''R2''))
     RuntimeError \<and>
   \<not> isinstance_OSError RuntimeError \<and>
   fst (start_proc world_B_fit_raises example_kwargs initial_state) = Inl RuntimeError \<and>
   start_proc world_B_fit_raises example_kwargs initial_state =
     completed_trainings world_B_fit_raises
       [((''test_project'', ''A'', ''R1''), params_of example_kwargs expt_A (run_of ''A'' ''R1'')),
        ((''test_project'', ''B'', ''R2''), params_of example_kwargs expt_B (run_of ''B'' ''R2''))]
       [] initial_state"
proof -
  let ?kA1 = "(''test_project'', ''A'', ''R1'')" and ?kB2 = "(''test_project'', ''B'', ''R2'')"
  let ?kB3 = "(''test_project'', ''B'', ''R3'')"
  let ?pA1 = "params_of example_kwargs expt_A (run_of ''A'' ''R1'')"
  let ?pB2 = "params_of example_kwargs expt_B (run_of ''B'' ''R2'')"
  let ?pB3 = "params_of example_kwargs expt_B (run_of ''B'' ''R3'')"
  have all_ok: "\<forall>(k, p)\<in>set (training_combinations example_kwargs). session_returns world_ok p"
    unfolding example_schedule by (simp add: example_sessions_return)
  note t1 = start_proc_all_or_abort[of example_kwargs world_ok initial_state,
                THEN conjunct1, THEN mp]
  have "\<exists>m s'. start_proc world_ok example_kwargs initial_state = (Inr m, s') \<and>
      fst ` set m = fst ` set (training_combinations example_kwargs)"
    using all_ok by (rule t1)
  then have A: "\<exists>m s'. start_proc world_ok example_kwargs initial_state = (Inr m, s') \<and>
      fst ` set m = {?kA1, ?kB2, ?kB3}"
    unfolding example_schedule by simp
  have split: "training_combinations example_kwargs = [(?kA1, ?pA1)] @ (?kB2, ?pB2) # [(?kB3, ?pB3)]"
    unfolding example_schedule by simp
  have pre: "\<forall>(k', p')\<in>set [(?kA1, ?pA1)]. session_returns world_B_fit_raises p'"
    by (simp add: example_session_A_returns)
  have nos: "\<not> isinstance_OSError RuntimeError" by simp
  note t2 = start_proc_all_or_abort[of example_kwargs world_B_fit_raises initial_state,
                THEN conjunct2, THEN spec, THEN spec, THEN spec, THEN spec, THEN spec, THEN mp,
                of "[(?kA1, ?pA1)]" ?kB2 ?pB2 "[(?kB3, ?pB3)]" RuntimeError]
  have hyp: "training_combinations example_kwargs = [(?kA1, ?pA1)] @ (?kB2, ?pB2) # [(?kB3, ?pB3)] \<and>
      (\<forall>(k', p')\<in>set [(?kA1, ?pA1)]. session_returns world_B_fit_raises p') \<and>
      session_raises world_B_fit_raises ?pB2 RuntimeError \<and> \<not> isinstance_OSError RuntimeError"
    using split pre example_session_B_raises nos by (intro conjI)
  from t2[OF hyp]
  have B: "fst (start_proc world_B_fit_raises example_kwargs initial_state) = Inl RuntimeError"
    and C: "start_proc world_B_fit_raises example_kwargs initial_state
        = completed_trainings world_B_fit_raises ([(?kA1, ?pA1)] @ [(?kB2, ?pB2)]) [] initial_state"
    by (rule conjunct1, rule conjunct2)
  from C have C': "start_proc world_B_fit_raises example_kwargs initial_state
        = completed_trainings world_B_fit_raises [(?kA1, ?pA1), (?kB2, ?pB2)] [] initial_state"
    by simp
  from A example_session_A_returns example_session_B_raises nos B C'
  show ?thesis by (intro conjI)
qed

text \<open>
  Claim C4 as stated fails there: \<^verbatim>\<open>start_proc\<close> raises and returns no mapping, and
  \<^verbatim>\<open>initialise\<close> has been signalled for two of the three scheduled combinations only.
\<close>

theorem start_proc_aborts_counterexample:
  "fst (start_proc world_B_fit_raises example_kwargs initial_state) = Inl RuntimeError \<and>
   initialise_calls (trace (snd (start_proc world_B_fit_raises example_kwargs initial_state))) = 2 \<and>
   length (training_combinations example_kwargs) = 3"
  unfolding start_proc_def example_schedule
  by (simp add: eval_defs world_B_fit_raises_def params_of_def example_kwargs_def kwargs_of_def
        expt_B_def initialise_calls_def)

end
